theory Spec2Isabelle
  imports Complex_Main "HOL-Library.Sublist" "HOL-Library.Multiset"
begin

section \<open>Python values\<close>

text \<open>
  The reconciliation engine of \<^verbatim>\<open>annual_report_ai/data_validator.py\<close> and
  \<^verbatim>\<open>annual_report_ai/financial_reconciliation.py\<close>, the duplicate detector of
  \<^verbatim>\<open>settlement_ai/ai_analyzer.py\<close> and the two similarity searches are embedded as HOL
  functions.

  \<^item> A Python \<^verbatim>\<open>str\<close> is a \<^typ>\<open>string\<close> holding its UTF-8 bytes. UTF-8 is
    self-synchronising, so the substring test on the bytes of two well-formed strings is the
    substring test on their code points. The Chinese labels of the source are written as
    byte lists, with the code points in the accompanying text.
  \<^item> A Python \<^verbatim>\<open>float\<close> is a \<^typ>\<open>real\<close>: comparison is exact, arithmetic is
    exact (rounding, overflow to infinity and NaN are outside the model).
  \<^item> \<^verbatim>\<open>Optional[float]\<close> is \<^typ>\<open>real option\<close>; an exception is the \<open>Inl\<close> of a sum.
  \<^item> A \<^verbatim>\<open>dict\<close> whose iteration order matters is an association list, a
    \<^verbatim>\<open>Dict[str, float]\<close> that is only looked up is a map.
\<close>

datatype py_error = ValueError | AttributeError | TypeError

subsection \<open>Operations on \<^verbatim>\<open>str\<close>\<close>

text \<open>\<^verbatim>\<open>s.startswith(p)\<close>\<close>

fun startswith :: "string \<Rightarrow> string \<Rightarrow> bool" where
  "startswith s [] = True"
| "startswith [] (p # ps) = False"
| "startswith (c # cs) (p # ps) = (c = p \<and> startswith cs ps)"

text \<open>\<^verbatim>\<open>a in b\<close> for two strings: \<open>a\<close> occurs in \<open>b\<close> as a contiguous run.\<close>

fun py_in :: "string \<Rightarrow> string \<Rightarrow> bool" where
  "py_in a [] = (a = [])"
| "py_in a (c # cs) = (startswith (c # cs) a \<or> py_in a cs)"

text \<open>\<^verbatim>\<open>s.replace(c, '')\<close> for a one-character \<open>c\<close>: every occurrence is removed.\<close>

definition replace_char :: "char \<Rightarrow> string \<Rightarrow> string" where
  "replace_char c s = filter (\<lambda>x. x \<noteq> c) s"

text \<open>
  \<^verbatim>\<open>str.isspace\<close> on the ASCII range: tab, line feed, vertical tab, form feed, carriage
  return, the four separators 0x1C..0x1F and the space.
\<close>

definition is_space :: "char \<Rightarrow> bool" where
  "is_space c = ((9 \<le> (of_char c :: nat) \<and> (of_char c :: nat) \<le> 13)
                 \<or> (28 \<le> (of_char c :: nat) \<and> (of_char c :: nat) \<le> 32))"

text \<open>\<^verbatim>\<open>s.strip()\<close>\<close>

definition strip :: "string \<Rightarrow> string" where
  "strip s = rev (dropWhile is_space (rev (dropWhile is_space s)))"

text \<open>The pattern class \<^verbatim>\<open>\d\<close> on the ASCII range, and the class \<^verbatim>\<open>[\d.]\<close>.\<close>

definition is_digit :: "char \<Rightarrow> bool" where
  "is_digit c = (48 \<le> (of_char c :: nat) \<and> (of_char c :: nat) \<le> 57)"

definition is_num_char :: "char \<Rightarrow> bool" where
  "is_num_char c = (is_digit c \<or> c = CHR ''.'')"

text \<open>
  \<^verbatim>\<open>re.search(r'[\d.]+', s)\<close>: the leftmost, longest run of digits and dots;
  \<open>None\<close> when the string has none. The result is \<^verbatim>\<open>match.group()\<close>.
\<close>

definition re_search_num :: "string \<Rightarrow> string option" where
  "re_search_num s =
     (let m = takeWhile is_num_char (dropWhile (\<lambda>c. \<not> is_num_char c) s)
      in if m = [] then None else Some m)"

text \<open>The number written by a string of decimal digits.\<close>

definition digit_val :: "char \<Rightarrow> nat" where
  "digit_val c = (of_char c :: nat) - 48"

definition dec_val :: "string \<Rightarrow> nat" where
  "dec_val ds = foldl (\<lambda>a c. 10 * a + digit_val c) 0 ds"

text \<open>
  \<^verbatim>\<open>float(m)\<close> for the text \<open>m\<close> that \<^verbatim>\<open>[\d.]+\<close> matched. Of the literals
  \<^verbatim>\<open>float\<close> accepts, a string of digits and dots can only be \<^verbatim>\<open>12\<close>, \<^verbatim>\<open>12.\<close>,
  \<^verbatim>\<open>12.5\<close> or \<^verbatim>\<open>.5\<close>; anything else (\<^verbatim>\<open>.\<close>, \<^verbatim>\<open>1.2.3\<close>) raises
  \<^verbatim>\<open>ValueError\<close>. The other forms \<^verbatim>\<open>float\<close> knows (sign, exponent, underscore,
  \<^verbatim>\<open>inf\<close>, \<^verbatim>\<open>nan\<close>, surrounding blanks) need a character the pattern never matches.
\<close>

definition py_float :: "string \<Rightarrow> py_error + real" where
  "py_float m =
     (let ip = takeWhile is_digit m; r = dropWhile is_digit m
      in case r of
           [] \<Rightarrow> (if ip = [] then Inl ValueError else Inr (real (dec_val ip)))
         | c # fp \<Rightarrow>
             (if c = CHR ''.'' \<and> list_all is_digit fp \<and> (ip \<noteq> [] \<or> fp \<noteq> [])
              then Inr (real (dec_val (ip @ fp)) / 10 ^ length fp)
              else Inl ValueError))"

section \<open>Value extractor: \<^verbatim>\<open>DataValidator._parse_number\<close>\<close>

text \<open>
  The body of the \<^verbatim>\<open>try\<close> block: commas and spaces are removed, the ends are stripped,
  a leading \<^verbatim>\<open>-\<close> or \<^verbatim>\<open>(\<close> marks the number negative and every \<^verbatim>\<open>-\<close>, \<^verbatim>\<open>(\<close> and
  \<^verbatim>\<open>)\<close> is then removed, and the first run of digits and dots is converted.
\<close>

definition parse_number_try :: "string \<Rightarrow> py_error + real option" where
  "parse_number_try value_str =
     (let s = strip (replace_char (CHR '' '') (replace_char (CHR '','') value_str));
          is_negative = (startswith s ''-'' \<or> startswith s ''('');
          s' = (if is_negative
                then replace_char (CHR '')'') (replace_char (CHR ''('') (replace_char (CHR ''-'') s))
                else s)
      in case re_search_num s' of
           None \<Rightarrow> Inr None
         | Some m \<Rightarrow>
             (case py_float m of
                Inl e \<Rightarrow> Inl e
              | Inr v \<Rightarrow> Inr (Some (if is_negative then - v else v))))"

text \<open>
  The whole method: the guard on the four placeholder strings, then the \<^verbatim>\<open>try\<close> block
  under \<^verbatim>\<open>except (ValueError, AttributeError): pass\<close>, after which \<^verbatim>\<open>None\<close> is
  returned. Any other exception would leave the method.
\<close>

definition parse_number_exn :: "string \<Rightarrow> py_error + real option" where
  "parse_number_exn value_str =
     (if value_str = [] \<or> value_str \<in> set [[], ''None'', ''nan'', ''-''] then Inr None
      else case parse_number_try value_str of
             Inl e \<Rightarrow> (if e = ValueError \<or> e = AttributeError then Inr None else Inl e)
           | Inr r \<Rightarrow> Inr r)"

text \<open>
  The value the callers see. By \<open>parse_number_exn_eq\<close> below the method never raises, so
  the \<open>Inl\<close> branch is never taken.
\<close>

definition parse_number :: "string \<Rightarrow> real option" where
  "parse_number value_str = (case parse_number_exn value_str of Inr r \<Rightarrow> r | Inl e \<Rightarrow> None)"

section \<open>Severity classifier: \<^verbatim>\<open>DataValidator._assess_severity\<close>\<close>

datatype severity = High | Medium | Low

definition assess_severity :: "real \<Rightarrow> real \<Rightarrow> severity" where
  "assess_severity diff base_value =
     (if base_value = 0 then (if diff > 100 then High else Medium)
      else let rate = \<bar>diff / base_value\<bar>
           in if rate > 0.01 \<or> diff > 1000 then High
              else if rate > 0.001 \<or> diff > 100 then Medium
              else Low)"

section \<open>The labels of the source\<close>

text \<open>
  Each constant is the UTF-8 encoding of one Chinese label of the source; the text before it
  gives an English gloss and the code points.
\<close>

text \<open>balance sheet: U+8D44 U+4EA7 U+8D1F U+503A U+8868\<close>

definition zh_balance_sheet :: string where
  "zh_balance_sheet =
     [CHR 0xE8, CHR 0xB5, CHR 0x84, CHR 0xE4, CHR 0xBA, CHR 0xA7, CHR 0xE8, CHR 0xB4, CHR 0x9F,
     CHR 0xE5, CHR 0x80, CHR 0xBA, CHR 0xE8, CHR 0xA1, CHR 0xA8]"

text \<open>income statement: U+5229 U+6DA6 U+8868\<close>

definition zh_income_statement :: string where
  "zh_income_statement =
     [CHR 0xE5, CHR 0x88, CHR 0xA9, CHR 0xE6, CHR 0xB6, CHR 0xA6, CHR 0xE8, CHR 0xA1,
     CHR 0xA8]"

text \<open>last year: U+4E0A U+5E74\<close>

definition zh_last_year :: string where
  "zh_last_year =
     [CHR 0xE4, CHR 0xB8, CHR 0x8A, CHR 0xE5, CHR 0xB9, CHR 0xB4]"

text \<open>last period: U+4E0A U+671F\<close>

definition zh_last_period :: string where
  "zh_last_period =
     [CHR 0xE4, CHR 0xB8, CHR 0x8A, CHR 0xE6, CHR 0x9C, CHR 0x9F]"

text \<open>this period: U+672C U+671F\<close>

definition zh_this_period :: string where
  "zh_this_period =
     [CHR 0xE6, CHR 0x9C, CHR 0xAC, CHR 0xE6, CHR 0x9C, CHR 0x9F]"

text \<open>period end: U+671F U+672B\<close>

definition zh_period_end :: string where
  "zh_period_end =
     [CHR 0xE6, CHR 0x9C, CHR 0x9F, CHR 0xE6, CHR 0x9C, CHR 0xAB]"

text \<open>this year: U+672C U+5E74\<close>

definition zh_this_year :: string where
  "zh_this_year =
     [CHR 0xE6, CHR 0x9C, CHR 0xAC, CHR 0xE5, CHR 0xB9, CHR 0xB4]"

text \<open>total assets: U+8D44 U+4EA7 U+603B U+8BA1\<close>

definition zh_total_assets :: string where
  "zh_total_assets =
     [CHR 0xE8, CHR 0xB5, CHR 0x84, CHR 0xE4, CHR 0xBA, CHR 0xA7, CHR 0xE6, CHR 0x80, CHR 0xBB,
     CHR 0xE8, CHR 0xAE, CHR 0xA1]"

text \<open>assets, sum: U+8D44 U+4EA7 U+5408 U+8BA1\<close>

definition zh_assets_sum :: string where
  "zh_assets_sum =
     [CHR 0xE8, CHR 0xB5, CHR 0x84, CHR 0xE4, CHR 0xBA, CHR 0xA7, CHR 0xE5, CHR 0x90, CHR 0x88,
     CHR 0xE8, CHR 0xAE, CHR 0xA1]"

text \<open>assets, total amount: U+8D44 U+4EA7 U+603B U+989D\<close>

definition zh_assets_amount :: string where
  "zh_assets_amount =
     [CHR 0xE8, CHR 0xB5, CHR 0x84, CHR 0xE4, CHR 0xBA, CHR 0xA7, CHR 0xE6, CHR 0x80, CHR 0xBB,
     CHR 0xE9, CHR 0xA2, CHR 0x9D]"

text \<open>all assets: U+603B U+8D44 U+4EA7\<close>

definition zh_all_assets :: string where
  "zh_all_assets =
     [CHR 0xE6, CHR 0x80, CHR 0xBB, CHR 0xE8, CHR 0xB5, CHR 0x84, CHR 0xE4, CHR 0xBA,
     CHR 0xA7]"

text \<open>total liabilities: U+8D1F U+503A U+603B U+8BA1\<close>

definition zh_total_liabilities :: string where
  "zh_total_liabilities =
     [CHR 0xE8, CHR 0xB4, CHR 0x9F, CHR 0xE5, CHR 0x80, CHR 0xBA, CHR 0xE6, CHR 0x80, CHR 0xBB,
     CHR 0xE8, CHR 0xAE, CHR 0xA1]"

text \<open>liabilities, sum: U+8D1F U+503A U+5408 U+8BA1\<close>

definition zh_liabilities_sum :: string where
  "zh_liabilities_sum =
     [CHR 0xE8, CHR 0xB4, CHR 0x9F, CHR 0xE5, CHR 0x80, CHR 0xBA, CHR 0xE5, CHR 0x90, CHR 0x88,
     CHR 0xE8, CHR 0xAE, CHR 0xA1]"

text \<open>liabilities, total amount: U+8D1F U+503A U+603B U+989D\<close>

definition zh_liabilities_amount :: string where
  "zh_liabilities_amount =
     [CHR 0xE8, CHR 0xB4, CHR 0x9F, CHR 0xE5, CHR 0x80, CHR 0xBA, CHR 0xE6, CHR 0x80, CHR 0xBB,
     CHR 0xE9, CHR 0xA2, CHR 0x9D]"

text \<open>all liabilities: U+603B U+8D1F U+503A\<close>

definition zh_all_liabilities :: string where
  "zh_all_liabilities =
     [CHR 0xE6, CHR 0x80, CHR 0xBB, CHR 0xE8, CHR 0xB4, CHR 0x9F, CHR 0xE5, CHR 0x80,
     CHR 0xBA]"

text \<open>net assets: U+51C0 U+8D44 U+4EA7\<close>

definition zh_net_assets :: string where
  "zh_net_assets =
     [CHR 0xE5, CHR 0x87, CHR 0x80, CHR 0xE8, CHR 0xB5, CHR 0x84, CHR 0xE4, CHR 0xBA,
     CHR 0xA7]"

text \<open>equity of the owners: U+6240 U+6709 U+8005 U+6743 U+76CA\<close>

definition zh_owners_equity :: string where
  "zh_owners_equity =
     [CHR 0xE6, CHR 0x89, CHR 0x80, CHR 0xE6, CHR 0x9C, CHR 0x89, CHR 0xE8, CHR 0x80, CHR 0x85,
     CHR 0xE6, CHR 0x9D, CHR 0x83, CHR 0xE7, CHR 0x9B, CHR 0x8A]"

text \<open>fund net assets: U+57FA U+91D1 U+51C0 U+8D44 U+4EA7\<close>

definition zh_fund_net_assets :: string where
  "zh_fund_net_assets =
     [CHR 0xE5, CHR 0x9F, CHR 0xBA, CHR 0xE9, CHR 0x87, CHR 0x91, CHR 0xE5, CHR 0x87, CHR 0x80,
     CHR 0xE8, CHR 0xB5, CHR 0x84, CHR 0xE4, CHR 0xBA, CHR 0xA7]"

text \<open>net assets, sum: U+51C0 U+8D44 U+4EA7 U+5408 U+8BA1\<close>

definition zh_net_assets_sum :: string where
  "zh_net_assets_sum =
     [CHR 0xE5, CHR 0x87, CHR 0x80, CHR 0xE8, CHR 0xB5, CHR 0x84, CHR 0xE4, CHR 0xBA, CHR 0xA7,
     CHR 0xE5, CHR 0x90, CHR 0x88, CHR 0xE8, CHR 0xAE, CHR 0xA1]"

text \<open>current assets: U+6D41 U+52A8 U+8D44 U+4EA7\<close>

definition zh_current_assets :: string where
  "zh_current_assets =
     [CHR 0xE6, CHR 0xB5, CHR 0x81, CHR 0xE5, CHR 0x8A, CHR 0xA8, CHR 0xE8, CHR 0xB5, CHR 0x84,
     CHR 0xE4, CHR 0xBA, CHR 0xA7]"

text \<open>current assets, sum: U+6D41 U+52A8 U+8D44 U+4EA7 U+5408 U+8BA1\<close>

definition zh_current_assets_sum :: string where
  "zh_current_assets_sum =
     [CHR 0xE6, CHR 0xB5, CHR 0x81, CHR 0xE5, CHR 0x8A, CHR 0xA8, CHR 0xE8, CHR 0xB5, CHR 0x84,
     CHR 0xE4, CHR 0xBA, CHR 0xA7, CHR 0xE5, CHR 0x90, CHR 0x88, CHR 0xE8, CHR 0xAE, CHR 0xA1]"

text \<open>current assets, total: U+6D41 U+52A8 U+8D44 U+4EA7 U+603B U+8BA1\<close>

definition zh_current_assets_total :: string where
  "zh_current_assets_total =
     [CHR 0xE6, CHR 0xB5, CHR 0x81, CHR 0xE5, CHR 0x8A, CHR 0xA8, CHR 0xE8, CHR 0xB5, CHR 0x84,
     CHR 0xE4, CHR 0xBA, CHR 0xA7, CHR 0xE6, CHR 0x80, CHR 0xBB, CHR 0xE8, CHR 0xAE, CHR 0xA1]"

text \<open>non-current assets: U+975E U+6D41 U+52A8 U+8D44 U+4EA7\<close>

definition zh_noncurrent_assets :: string where
  "zh_noncurrent_assets =
     [CHR 0xE9, CHR 0x9D, CHR 0x9E, CHR 0xE6, CHR 0xB5, CHR 0x81, CHR 0xE5, CHR 0x8A, CHR 0xA8,
     CHR 0xE8, CHR 0xB5, CHR 0x84, CHR 0xE4, CHR 0xBA, CHR 0xA7]"

text \<open>non-current assets, sum: U+975E U+6D41 U+52A8 U+8D44 U+4EA7 U+5408 U+8BA1\<close>

definition zh_noncurrent_assets_sum :: string where
  "zh_noncurrent_assets_sum =
     [CHR 0xE9, CHR 0x9D, CHR 0x9E, CHR 0xE6, CHR 0xB5, CHR 0x81, CHR 0xE5, CHR 0x8A, CHR 0xA8,
     CHR 0xE8, CHR 0xB5, CHR 0x84, CHR 0xE4, CHR 0xBA, CHR 0xA7, CHR 0xE5, CHR 0x90, CHR 0x88,
     CHR 0xE8, CHR 0xAE, CHR 0xA1]"

text \<open>non-current assets, total: U+975E U+6D41 U+52A8 U+8D44 U+4EA7 U+603B U+8BA1\<close>

definition zh_noncurrent_assets_total :: string where
  "zh_noncurrent_assets_total =
     [CHR 0xE9, CHR 0x9D, CHR 0x9E, CHR 0xE6, CHR 0xB5, CHR 0x81, CHR 0xE5, CHR 0x8A, CHR 0xA8,
     CHR 0xE8, CHR 0xB5, CHR 0x84, CHR 0xE4, CHR 0xBA, CHR 0xA7, CHR 0xE6, CHR 0x80, CHR 0xBB,
     CHR 0xE8, CHR 0xAE, CHR 0xA1]"

text \<open>monetary funds: U+8D27 U+5E01 U+8D44 U+91D1\<close>

definition zh_cash :: string where
  "zh_cash =
     [CHR 0xE8, CHR 0xB4, CHR 0xA7, CHR 0xE5, CHR 0xB8, CHR 0x81, CHR 0xE8, CHR 0xB5, CHR 0x84,
     CHR 0xE9, CHR 0x87, CHR 0x91]"

text \<open>bank deposits: U+94F6 U+884C U+5B58 U+6B3E\<close>

definition zh_bank_deposits :: string where
  "zh_bank_deposits =
     [CHR 0xE9, CHR 0x93, CHR 0xB6, CHR 0xE8, CHR 0xA1, CHR 0x8C, CHR 0xE5, CHR 0xAD, CHR 0x98,
     CHR 0xE6, CHR 0xAC, CHR 0xBE]"

text \<open>cash: U+73B0 U+91D1\<close>

definition zh_cash_on_hand :: string where
  "zh_cash_on_hand =
     [CHR 0xE7, CHR 0x8E, CHR 0xB0, CHR 0xE9, CHR 0x87, CHR 0x91]"

text \<open>monetary funds, sum: U+8D27 U+5E01 U+8D44 U+91D1 U+5408 U+8BA1\<close>

definition zh_cash_sum :: string where
  "zh_cash_sum =
     [CHR 0xE8, CHR 0xB4, CHR 0xA7, CHR 0xE5, CHR 0xB8, CHR 0x81, CHR 0xE8, CHR 0xB5, CHR 0x84,
     CHR 0xE9, CHR 0x87, CHR 0x91, CHR 0xE5, CHR 0x90, CHR 0x88, CHR 0xE8, CHR 0xAE, CHR 0xA1]"

text \<open>trading financial assets: U+4EA4 U+6613 U+6027 U+91D1 U+878D U+8D44 U+4EA7\<close>

definition zh_trading_assets :: string where
  "zh_trading_assets =
     [CHR 0xE4, CHR 0xBA, CHR 0xA4, CHR 0xE6, CHR 0x98, CHR 0x93, CHR 0xE6, CHR 0x80, CHR 0xA7,
     CHR 0xE9, CHR 0x87, CHR 0x91, CHR 0xE8, CHR 0x9E, CHR 0x8D, CHR 0xE8, CHR 0xB5, CHR 0x84,
     CHR 0xE4, CHR 0xBA, CHR 0xA7]"

text \<open>financial assets at fair value through profit or loss: U+4EE5 U+516C U+5141 U+4EF7 U+503C U+8BA1 U+91CF U+4E14 U+5176 U+53D8 U+52A8 U+8BA1 U+5165 U+5F53 U+671F U+635F U+76CA U+7684 U+91D1 U+878D U+8D44 U+4EA7\<close>

definition zh_fvtpl_assets :: string where
  "zh_fvtpl_assets =
     [CHR 0xE4, CHR 0xBB, CHR 0xA5, CHR 0xE5, CHR 0x85, CHR 0xAC, CHR 0xE5, CHR 0x85, CHR 0x81,
     CHR 0xE4, CHR 0xBB, CHR 0xB7, CHR 0xE5, CHR 0x80, CHR 0xBC, CHR 0xE8, CHR 0xAE, CHR 0xA1,
     CHR 0xE9, CHR 0x87, CHR 0x8F, CHR 0xE4, CHR 0xB8, CHR 0x94, CHR 0xE5, CHR 0x85, CHR 0xB6,
     CHR 0xE5, CHR 0x8F, CHR 0x98, CHR 0xE5, CHR 0x8A, CHR 0xA8, CHR 0xE8, CHR 0xAE, CHR 0xA1,
     CHR 0xE5, CHR 0x85, CHR 0xA5, CHR 0xE5, CHR 0xBD, CHR 0x93, CHR 0xE6, CHR 0x9C, CHR 0x9F,
     CHR 0xE6, CHR 0x8D, CHR 0x9F, CHR 0xE7, CHR 0x9B, CHR 0x8A, CHR 0xE7, CHR 0x9A, CHR 0x84,
     CHR 0xE9, CHR 0x87, CHR 0x91, CHR 0xE8, CHR 0x9E, CHR 0x8D, CHR 0xE8, CHR 0xB5, CHR 0x84,
     CHR 0xE4, CHR 0xBA, CHR 0xA7]"

text \<open>trading financial assets, sum: U+4EA4 U+6613 U+6027 U+91D1 U+878D U+8D44 U+4EA7 U+5408 U+8BA1\<close>

definition zh_trading_assets_sum :: string where
  "zh_trading_assets_sum =
     [CHR 0xE4, CHR 0xBA, CHR 0xA4, CHR 0xE6, CHR 0x98, CHR 0x93, CHR 0xE6, CHR 0x80, CHR 0xA7,
     CHR 0xE9, CHR 0x87, CHR 0x91, CHR 0xE8, CHR 0x9E, CHR 0x8D, CHR 0xE8, CHR 0xB5, CHR 0x84,
     CHR 0xE4, CHR 0xBA, CHR 0xA7, CHR 0xE5, CHR 0x90, CHR 0x88, CHR 0xE8, CHR 0xAE, CHR 0xA1]"

text \<open>receivables: U+5E94 U+6536 U+6B3E U+9879\<close>

definition zh_receivables :: string where
  "zh_receivables =
     [CHR 0xE5, CHR 0xBA, CHR 0x94, CHR 0xE6, CHR 0x94, CHR 0xB6, CHR 0xE6, CHR 0xAC, CHR 0xBE,
     CHR 0xE9, CHR 0xA1, CHR 0xB9]"

text \<open>accounts receivable: U+5E94 U+6536 U+8D26 U+6B3E\<close>

definition zh_accounts_receivable :: string where
  "zh_accounts_receivable =
     [CHR 0xE5, CHR 0xBA, CHR 0x94, CHR 0xE6, CHR 0x94, CHR 0xB6, CHR 0xE8, CHR 0xB4, CHR 0xA6,
     CHR 0xE6, CHR 0xAC, CHR 0xBE]"

text \<open>notes receivable: U+5E94 U+6536 U+7968 U+636E\<close>

definition zh_notes_receivable :: string where
  "zh_notes_receivable =
     [CHR 0xE5, CHR 0xBA, CHR 0x94, CHR 0xE6, CHR 0x94, CHR 0xB6, CHR 0xE7, CHR 0xA5, CHR 0xA8,
     CHR 0xE6, CHR 0x8D, CHR 0xAE]"

text \<open>receivables, sum: U+5E94 U+6536 U+6B3E U+9879 U+5408 U+8BA1\<close>

definition zh_receivables_sum :: string where
  "zh_receivables_sum =
     [CHR 0xE5, CHR 0xBA, CHR 0x94, CHR 0xE6, CHR 0x94, CHR 0xB6, CHR 0xE6, CHR 0xAC, CHR 0xBE,
     CHR 0xE9, CHR 0xA1, CHR 0xB9, CHR 0xE5, CHR 0x90, CHR 0x88, CHR 0xE8, CHR 0xAE, CHR 0xA1]"

text \<open>current liabilities: U+6D41 U+52A8 U+8D1F U+503A\<close>

definition zh_current_liabilities :: string where
  "zh_current_liabilities =
     [CHR 0xE6, CHR 0xB5, CHR 0x81, CHR 0xE5, CHR 0x8A, CHR 0xA8, CHR 0xE8, CHR 0xB4, CHR 0x9F,
     CHR 0xE5, CHR 0x80, CHR 0xBA]"

text \<open>current liabilities, sum: U+6D41 U+52A8 U+8D1F U+503A U+5408 U+8BA1\<close>

definition zh_current_liabilities_sum :: string where
  "zh_current_liabilities_sum =
     [CHR 0xE6, CHR 0xB5, CHR 0x81, CHR 0xE5, CHR 0x8A, CHR 0xA8, CHR 0xE8, CHR 0xB4, CHR 0x9F,
     CHR 0xE5, CHR 0x80, CHR 0xBA, CHR 0xE5, CHR 0x90, CHR 0x88, CHR 0xE8, CHR 0xAE, CHR 0xA1]"

text \<open>current liabilities, total: U+6D41 U+52A8 U+8D1F U+503A U+603B U+8BA1\<close>

definition zh_current_liabilities_total :: string where
  "zh_current_liabilities_total =
     [CHR 0xE6, CHR 0xB5, CHR 0x81, CHR 0xE5, CHR 0x8A, CHR 0xA8, CHR 0xE8, CHR 0xB4, CHR 0x9F,
     CHR 0xE5, CHR 0x80, CHR 0xBA, CHR 0xE6, CHR 0x80, CHR 0xBB, CHR 0xE8, CHR 0xAE, CHR 0xA1]"

text \<open>payables: U+5E94 U+4ED8 U+6B3E U+9879\<close>

definition zh_payables :: string where
  "zh_payables =
     [CHR 0xE5, CHR 0xBA, CHR 0x94, CHR 0xE4, CHR 0xBB, CHR 0x98, CHR 0xE6, CHR 0xAC, CHR 0xBE,
     CHR 0xE9, CHR 0xA1, CHR 0xB9]"

text \<open>accounts payable: U+5E94 U+4ED8 U+8D26 U+6B3E\<close>

definition zh_accounts_payable :: string where
  "zh_accounts_payable =
     [CHR 0xE5, CHR 0xBA, CHR 0x94, CHR 0xE4, CHR 0xBB, CHR 0x98, CHR 0xE8, CHR 0xB4, CHR 0xA6,
     CHR 0xE6, CHR 0xAC, CHR 0xBE]"

text \<open>notes payable: U+5E94 U+4ED8 U+7968 U+636E\<close>

definition zh_notes_payable :: string where
  "zh_notes_payable =
     [CHR 0xE5, CHR 0xBA, CHR 0x94, CHR 0xE4, CHR 0xBB, CHR 0x98, CHR 0xE7, CHR 0xA5, CHR 0xA8,
     CHR 0xE6, CHR 0x8D, CHR 0xAE]"

text \<open>payables, sum: U+5E94 U+4ED8 U+6B3E U+9879 U+5408 U+8BA1\<close>

definition zh_payables_sum :: string where
  "zh_payables_sum =
     [CHR 0xE5, CHR 0xBA, CHR 0x94, CHR 0xE4, CHR 0xBB, CHR 0x98, CHR 0xE6, CHR 0xAC, CHR 0xBE,
     CHR 0xE9, CHR 0xA1, CHR 0xB9, CHR 0xE5, CHR 0x90, CHR 0x88, CHR 0xE8, CHR 0xAE, CHR 0xA1]"

text \<open>operating revenue: U+8425 U+4E1A U+6536 U+5165\<close>

definition zh_revenue :: string where
  "zh_revenue =
     [CHR 0xE8, CHR 0x90, CHR 0xA5, CHR 0xE4, CHR 0xB8, CHR 0x9A, CHR 0xE6, CHR 0x94, CHR 0xB6,
     CHR 0xE5, CHR 0x85, CHR 0xA5]"

text \<open>income, sum: U+6536 U+5165 U+5408 U+8BA1\<close>

definition zh_income_sum :: string where
  "zh_income_sum =
     [CHR 0xE6, CHR 0x94, CHR 0xB6, CHR 0xE5, CHR 0x85, CHR 0xA5, CHR 0xE5, CHR 0x90, CHR 0x88,
     CHR 0xE8, CHR 0xAE, CHR 0xA1]"

text \<open>operating revenue, sum: U+8425 U+4E1A U+6536 U+5165 U+5408 U+8BA1\<close>

definition zh_revenue_sum :: string where
  "zh_revenue_sum =
     [CHR 0xE8, CHR 0x90, CHR 0xA5, CHR 0xE4, CHR 0xB8, CHR 0x9A, CHR 0xE6, CHR 0x94, CHR 0xB6,
     CHR 0xE5, CHR 0x85, CHR 0xA5, CHR 0xE5, CHR 0x90, CHR 0x88, CHR 0xE8, CHR 0xAE, CHR 0xA1]"

text \<open>all income: U+603B U+6536 U+5165\<close>

definition zh_all_income :: string where
  "zh_all_income =
     [CHR 0xE6, CHR 0x80, CHR 0xBB, CHR 0xE6, CHR 0x94, CHR 0xB6, CHR 0xE5, CHR 0x85,
     CHR 0xA5]"

text \<open>operating cost: U+8425 U+4E1A U+6210 U+672C\<close>

definition zh_cost :: string where
  "zh_cost =
     [CHR 0xE8, CHR 0x90, CHR 0xA5, CHR 0xE4, CHR 0xB8, CHR 0x9A, CHR 0xE6, CHR 0x88, CHR 0x90,
     CHR 0xE6, CHR 0x9C, CHR 0xAC]"

text \<open>cost, sum: U+6210 U+672C U+5408 U+8BA1\<close>

definition zh_cost_sum :: string where
  "zh_cost_sum =
     [CHR 0xE6, CHR 0x88, CHR 0x90, CHR 0xE6, CHR 0x9C, CHR 0xAC, CHR 0xE5, CHR 0x90, CHR 0x88,
     CHR 0xE8, CHR 0xAE, CHR 0xA1]"

text \<open>operating cost, sum: U+8425 U+4E1A U+6210 U+672C U+5408 U+8BA1\<close>

definition zh_op_cost_sum :: string where
  "zh_op_cost_sum =
     [CHR 0xE8, CHR 0x90, CHR 0xA5, CHR 0xE4, CHR 0xB8, CHR 0x9A, CHR 0xE6, CHR 0x88, CHR 0x90,
     CHR 0xE6, CHR 0x9C, CHR 0xAC, CHR 0xE5, CHR 0x90, CHR 0x88, CHR 0xE8, CHR 0xAE, CHR 0xA1]"

text \<open>all cost: U+603B U+6210 U+672C\<close>

definition zh_all_cost :: string where
  "zh_all_cost =
     [CHR 0xE6, CHR 0x80, CHR 0xBB, CHR 0xE6, CHR 0x88, CHR 0x90, CHR 0xE6, CHR 0x9C,
     CHR 0xAC]"

text \<open>net profit: U+51C0 U+5229 U+6DA6\<close>

definition zh_net_profit :: string where
  "zh_net_profit =
     [CHR 0xE5, CHR 0x87, CHR 0x80, CHR 0xE5, CHR 0x88, CHR 0xA9, CHR 0xE6, CHR 0xB6,
     CHR 0xA6]"

text \<open>profit of the period: U+672C U+671F U+5229 U+6DA6\<close>

definition zh_period_profit :: string where
  "zh_period_profit =
     [CHR 0xE6, CHR 0x9C, CHR 0xAC, CHR 0xE6, CHR 0x9C, CHR 0x9F, CHR 0xE5, CHR 0x88, CHR 0xA9,
     CHR 0xE6, CHR 0xB6, CHR 0xA6]"

text \<open>net profit, sum: U+51C0 U+5229 U+6DA6 U+5408 U+8BA1\<close>

definition zh_net_profit_sum :: string where
  "zh_net_profit_sum =
     [CHR 0xE5, CHR 0x87, CHR 0x80, CHR 0xE5, CHR 0x88, CHR 0xA9, CHR 0xE6, CHR 0xB6, CHR 0xA6,
     CHR 0xE5, CHR 0x90, CHR 0x88, CHR 0xE8, CHR 0xAE, CHR 0xA1]"

text \<open>total profit: U+5229 U+6DA6 U+603B U+989D\<close>

definition zh_total_profit :: string where
  "zh_total_profit =
     [CHR 0xE5, CHR 0x88, CHR 0xA9, CHR 0xE6, CHR 0xB6, CHR 0xA6, CHR 0xE6, CHR 0x80, CHR 0xBB,
     CHR 0xE9, CHR 0xA2, CHR 0x9D]"

text \<open>investment income: U+6295 U+8D44 U+6536 U+76CA\<close>

definition zh_invest_income :: string where
  "zh_invest_income =
     [CHR 0xE6, CHR 0x8A, CHR 0x95, CHR 0xE8, CHR 0xB5, CHR 0x84, CHR 0xE6, CHR 0x94, CHR 0xB6,
     CHR 0xE7, CHR 0x9B, CHR 0x8A]"

text \<open>investment income, sum: U+6295 U+8D44 U+6536 U+76CA U+5408 U+8BA1\<close>

definition zh_invest_income_sum :: string where
  "zh_invest_income_sum =
     [CHR 0xE6, CHR 0x8A, CHR 0x95, CHR 0xE8, CHR 0xB5, CHR 0x84, CHR 0xE6, CHR 0x94, CHR 0xB6,
     CHR 0xE7, CHR 0x9B, CHR 0x8A, CHR 0xE5, CHR 0x90, CHR 0x88, CHR 0xE8, CHR 0xAE, CHR 0xA1]"

text \<open>investment income, total amount: U+6295 U+8D44 U+6536 U+76CA U+603B U+989D\<close>

definition zh_invest_income_amount :: string where
  "zh_invest_income_amount =
     [CHR 0xE6, CHR 0x8A, CHR 0x95, CHR 0xE8, CHR 0xB5, CHR 0x84, CHR 0xE6, CHR 0x94, CHR 0xB6,
     CHR 0xE7, CHR 0x9B, CHR 0x8A, CHR 0xE6, CHR 0x80, CHR 0xBB, CHR 0xE9, CHR 0xA2, CHR 0x9D]"

text \<open>gain from fair value changes: U+516C U+5141 U+4EF7 U+503C U+53D8 U+52A8 U+6536 U+76CA\<close>

definition zh_fv_gain :: string where
  "zh_fv_gain =
     [CHR 0xE5, CHR 0x85, CHR 0xAC, CHR 0xE5, CHR 0x85, CHR 0x81, CHR 0xE4, CHR 0xBB, CHR 0xB7,
     CHR 0xE5, CHR 0x80, CHR 0xBC, CHR 0xE5, CHR 0x8F, CHR 0x98, CHR 0xE5, CHR 0x8A, CHR 0xA8,
     CHR 0xE6, CHR 0x94, CHR 0xB6, CHR 0xE7, CHR 0x9B, CHR 0x8A]"

text \<open>gain or loss from fair value changes: U+516C U+5141 U+4EF7 U+503C U+53D8 U+52A8 U+635F U+76CA\<close>

definition zh_fv_gain_loss :: string where
  "zh_fv_gain_loss =
     [CHR 0xE5, CHR 0x85, CHR 0xAC, CHR 0xE5, CHR 0x85, CHR 0x81, CHR 0xE4, CHR 0xBB, CHR 0xB7,
     CHR 0xE5, CHR 0x80, CHR 0xBC, CHR 0xE5, CHR 0x8F, CHR 0x98, CHR 0xE5, CHR 0x8A, CHR 0xA8,
     CHR 0xE6, CHR 0x8D, CHR 0x9F, CHR 0xE7, CHR 0x9B, CHR 0x8A]"

text \<open>gain from fair value changes, sum: U+516C U+5141 U+4EF7 U+503C U+53D8 U+52A8 U+6536 U+76CA U+5408 U+8BA1\<close>

definition zh_fv_gain_sum :: string where
  "zh_fv_gain_sum =
     [CHR 0xE5, CHR 0x85, CHR 0xAC, CHR 0xE5, CHR 0x85, CHR 0x81, CHR 0xE4, CHR 0xBB, CHR 0xB7,
     CHR 0xE5, CHR 0x80, CHR 0xBC, CHR 0xE5, CHR 0x8F, CHR 0x98, CHR 0xE5, CHR 0x8A, CHR 0xA8,
     CHR 0xE6, CHR 0x94, CHR 0xB6, CHR 0xE7, CHR 0x9B, CHR 0x8A, CHR 0xE5, CHR 0x90, CHR 0x88,
     CHR 0xE8, CHR 0xAE, CHR 0xA1]"

text \<open>item: U+9879 U+76EE\<close>

definition zh_item :: string where
  "zh_item =
     [CHR 0xE9, CHR 0xA1, CHR 0xB9, CHR 0xE7, CHR 0x9B, CHR 0xAE]"

text \<open>amount of this period: U+672C U+671F U+91D1 U+989D\<close>

definition zh_this_period_amount :: string where
  "zh_this_period_amount =
     [CHR 0xE6, CHR 0x9C, CHR 0xAC, CHR 0xE6, CHR 0x9C, CHR 0x9F, CHR 0xE9, CHR 0x87, CHR 0x91,
     CHR 0xE9, CHR 0xA2, CHR 0x9D]"

text \<open>amount of last period: U+4E0A U+671F U+91D1 U+989D\<close>

definition zh_last_period_amount :: string where
  "zh_last_period_amount =
     [CHR 0xE4, CHR 0xB8, CHR 0x8A, CHR 0xE6, CHR 0x9C, CHR 0x9F, CHR 0xE9, CHR 0x87, CHR 0x91,
     CHR 0xE9, CHR 0xA2, CHR 0x9D]"

text \<open>liabilities and net assets, total: U+8D1F U+503A U+548C U+51C0 U+8D44 U+4EA7 U+603B U+8BA1\<close>

definition zh_liabilities_and_net_assets :: string where
  "zh_liabilities_and_net_assets =
     [CHR 0xE8, CHR 0xB4, CHR 0x9F, CHR 0xE5, CHR 0x80, CHR 0xBA, CHR 0xE5, CHR 0x92, CHR 0x8C,
     CHR 0xE5, CHR 0x87, CHR 0x80, CHR 0xE8, CHR 0xB5, CHR 0x84, CHR 0xE4, CHR 0xBA, CHR 0xA7,
     CHR 0xE6, CHR 0x80, CHR 0xBB, CHR 0xE8, CHR 0xAE, CHR 0xA1]"

text \<open>paid-in fund capital: U+5B9E U+6536 U+57FA U+91D1\<close>

definition zh_paid_in_fund :: string where
  "zh_paid_in_fund =
     [CHR 0xE5, CHR 0xAE, CHR 0x9E, CHR 0xE6, CHR 0x94, CHR 0xB6, CHR 0xE5, CHR 0x9F, CHR 0xBA,
     CHR 0xE9, CHR 0x87, CHR 0x91]"

text \<open>undistributed profit: U+672A U+5206 U+914D U+5229 U+6DA6\<close>

definition zh_retained_profit :: string where
  "zh_retained_profit =
     [CHR 0xE6, CHR 0x9C, CHR 0xAA, CHR 0xE5, CHR 0x88, CHR 0x86, CHR 0xE9, CHR 0x85, CHR 0x8D,
     CHR 0xE5, CHR 0x88, CHR 0xA9, CHR 0xE6, CHR 0xB6, CHR 0xA6]"

text \<open>total operating revenue: U+8425 U+4E1A U+603B U+6536 U+5165\<close>

definition zh_total_revenue :: string where
  "zh_total_revenue =
     [CHR 0xE8, CHR 0x90, CHR 0xA5, CHR 0xE4, CHR 0xB8, CHR 0x9A, CHR 0xE6, CHR 0x80, CHR 0xBB,
     CHR 0xE6, CHR 0x94, CHR 0xB6, CHR 0xE5, CHR 0x85, CHR 0xA5]"

text \<open>total comprehensive income: U+7EFC U+5408 U+6536 U+76CA U+603B U+989D\<close>

definition zh_comprehensive_income :: string where
  "zh_comprehensive_income =
     [CHR 0xE7, CHR 0xBB, CHR 0xBC, CHR 0xE5, CHR 0x90, CHR 0x88, CHR 0xE6, CHR 0x94, CHR 0xB6,
     CHR 0xE7, CHR 0x9B, CHR 0x8A, CHR 0xE6, CHR 0x80, CHR 0xBB, CHR 0xE9, CHR 0xA2, CHR 0x9D]"

text \<open>comparable prior-year period, total assets: U+4E0A U+5E74 U+5EA6 U+53EF U+6BD4 U+533A U+95F4 U+8D44 U+4EA7 U+603B U+8BA1\<close>

definition zh_cmp_total_assets :: string where
  "zh_cmp_total_assets =
     [CHR 0xE4, CHR 0xB8, CHR 0x8A, CHR 0xE5, CHR 0xB9, CHR 0xB4, CHR 0xE5, CHR 0xBA, CHR 0xA6,
     CHR 0xE5, CHR 0x8F, CHR 0xAF, CHR 0xE6, CHR 0xAF, CHR 0x94, CHR 0xE5, CHR 0x8C, CHR 0xBA,
     CHR 0xE9, CHR 0x97, CHR 0xB4, CHR 0xE8, CHR 0xB5, CHR 0x84, CHR 0xE4, CHR 0xBA, CHR 0xA7,
     CHR 0xE6, CHR 0x80, CHR 0xBB, CHR 0xE8, CHR 0xAE, CHR 0xA1]"

text \<open>period end, total assets: U+671F U+672B U+8D44 U+4EA7 U+603B U+8BA1\<close>

definition zh_end_total_assets :: string where
  "zh_end_total_assets =
     [CHR 0xE6, CHR 0x9C, CHR 0x9F, CHR 0xE6, CHR 0x9C, CHR 0xAB, CHR 0xE8, CHR 0xB5, CHR 0x84,
     CHR 0xE4, CHR 0xBA, CHR 0xA7, CHR 0xE6, CHR 0x80, CHR 0xBB, CHR 0xE8, CHR 0xAE, CHR 0xA1]"

text \<open>comparable prior-year period, liabilities sum: U+4E0A U+5E74 U+5EA6 U+53EF U+6BD4 U+533A U+95F4 U+8D1F U+503A U+5408 U+8BA1\<close>

definition zh_cmp_liabilities_sum :: string where
  "zh_cmp_liabilities_sum =
     [CHR 0xE4, CHR 0xB8, CHR 0x8A, CHR 0xE5, CHR 0xB9, CHR 0xB4, CHR 0xE5, CHR 0xBA, CHR 0xA6,
     CHR 0xE5, CHR 0x8F, CHR 0xAF, CHR 0xE6, CHR 0xAF, CHR 0x94, CHR 0xE5, CHR 0x8C, CHR 0xBA,
     CHR 0xE9, CHR 0x97, CHR 0xB4, CHR 0xE8, CHR 0xB4, CHR 0x9F, CHR 0xE5, CHR 0x80, CHR 0xBA,
     CHR 0xE5, CHR 0x90, CHR 0x88, CHR 0xE8, CHR 0xAE, CHR 0xA1]"

text \<open>period end, liabilities sum: U+671F U+672B U+8D1F U+503A U+5408 U+8BA1\<close>

definition zh_end_liabilities_sum :: string where
  "zh_end_liabilities_sum =
     [CHR 0xE6, CHR 0x9C, CHR 0x9F, CHR 0xE6, CHR 0x9C, CHR 0xAB, CHR 0xE8, CHR 0xB4, CHR 0x9F,
     CHR 0xE5, CHR 0x80, CHR 0xBA, CHR 0xE5, CHR 0x90, CHR 0x88, CHR 0xE8, CHR 0xAE, CHR 0xA1]"

text \<open>comparable prior-year period, net assets sum: U+4E0A U+5E74 U+5EA6 U+53EF U+6BD4 U+533A U+95F4 U+51C0 U+8D44 U+4EA7 U+5408 U+8BA1\<close>

definition zh_cmp_net_assets_sum :: string where
  "zh_cmp_net_assets_sum =
     [CHR 0xE4, CHR 0xB8, CHR 0x8A, CHR 0xE5, CHR 0xB9, CHR 0xB4, CHR 0xE5, CHR 0xBA, CHR 0xA6,
     CHR 0xE5, CHR 0x8F, CHR 0xAF, CHR 0xE6, CHR 0xAF, CHR 0x94, CHR 0xE5, CHR 0x8C, CHR 0xBA,
     CHR 0xE9, CHR 0x97, CHR 0xB4, CHR 0xE5, CHR 0x87, CHR 0x80, CHR 0xE8, CHR 0xB5, CHR 0x84,
     CHR 0xE4, CHR 0xBA, CHR 0xA7, CHR 0xE5, CHR 0x90, CHR 0x88, CHR 0xE8, CHR 0xAE, CHR 0xA1]"

text \<open>period end, net assets sum: U+671F U+672B U+51C0 U+8D44 U+4EA7 U+5408 U+8BA1\<close>

definition zh_end_net_assets_sum :: string where
  "zh_end_net_assets_sum =
     [CHR 0xE6, CHR 0x9C, CHR 0x9F, CHR 0xE6, CHR 0x9C, CHR 0xAB, CHR 0xE5, CHR 0x87, CHR 0x80,
     CHR 0xE8, CHR 0xB5, CHR 0x84, CHR 0xE4, CHR 0xBA, CHR 0xA7, CHR 0xE5, CHR 0x90, CHR 0x88,
     CHR 0xE8, CHR 0xAE, CHR 0xA1]"

text \<open>last period, total operating revenue: U+4E0A U+671F U+8425 U+4E1A U+603B U+6536 U+5165\<close>

definition zh_prev_total_revenue :: string where
  "zh_prev_total_revenue =
     [CHR 0xE4, CHR 0xB8, CHR 0x8A, CHR 0xE6, CHR 0x9C, CHR 0x9F, CHR 0xE8, CHR 0x90, CHR 0xA5,
     CHR 0xE4, CHR 0xB8, CHR 0x9A, CHR 0xE6, CHR 0x80, CHR 0xBB, CHR 0xE6, CHR 0x94, CHR 0xB6,
     CHR 0xE5, CHR 0x85, CHR 0xA5]"

text \<open>this period, total operating revenue: U+672C U+671F U+8425 U+4E1A U+603B U+6536 U+5165\<close>

definition zh_cur_total_revenue :: string where
  "zh_cur_total_revenue =
     [CHR 0xE6, CHR 0x9C, CHR 0xAC, CHR 0xE6, CHR 0x9C, CHR 0x9F, CHR 0xE8, CHR 0x90, CHR 0xA5,
     CHR 0xE4, CHR 0xB8, CHR 0x9A, CHR 0xE6, CHR 0x80, CHR 0xBB, CHR 0xE6, CHR 0x94, CHR 0xB6,
     CHR 0xE5, CHR 0x85, CHR 0xA5]"

text \<open>last period, total comprehensive income: U+4E0A U+671F U+7EFC U+5408 U+6536 U+76CA U+603B U+989D\<close>

definition zh_prev_comprehensive_income :: string where
  "zh_prev_comprehensive_income =
     [CHR 0xE4, CHR 0xB8, CHR 0x8A, CHR 0xE6, CHR 0x9C, CHR 0x9F, CHR 0xE7, CHR 0xBB, CHR 0xBC,
     CHR 0xE5, CHR 0x90, CHR 0x88, CHR 0xE6, CHR 0x94, CHR 0xB6, CHR 0xE7, CHR 0x9B, CHR 0x8A,
     CHR 0xE6, CHR 0x80, CHR 0xBB, CHR 0xE9, CHR 0xA2, CHR 0x9D]"

text \<open>this period, total comprehensive income: U+672C U+671F U+7EFC U+5408 U+6536 U+76CA U+603B U+989D\<close>

definition zh_cur_comprehensive_income :: string where
  "zh_cur_comprehensive_income =
     [CHR 0xE6, CHR 0x9C, CHR 0xAC, CHR 0xE6, CHR 0x9C, CHR 0x9F, CHR 0xE7, CHR 0xBB, CHR 0xBC,
     CHR 0xE5, CHR 0x90, CHR 0x88, CHR 0xE6, CHR 0x94, CHR 0xB6, CHR 0xE7, CHR 0x9B, CHR 0x8A,
     CHR 0xE6, CHR 0x80, CHR 0xBB, CHR 0xE9, CHR 0xA2, CHR 0x9D]"

text \<open>comparable prior-year period, paid-in fund capital: U+4E0A U+5E74 U+5EA6 U+53EF U+6BD4 U+533A U+95F4 U+5B9E U+6536 U+57FA U+91D1\<close>

definition zh_cmp_paid_in_fund :: string where
  "zh_cmp_paid_in_fund =
     [CHR 0xE4, CHR 0xB8, CHR 0x8A, CHR 0xE5, CHR 0xB9, CHR 0xB4, CHR 0xE5, CHR 0xBA, CHR 0xA6,
     CHR 0xE5, CHR 0x8F, CHR 0xAF, CHR 0xE6, CHR 0xAF, CHR 0x94, CHR 0xE5, CHR 0x8C, CHR 0xBA,
     CHR 0xE9, CHR 0x97, CHR 0xB4, CHR 0xE5, CHR 0xAE, CHR 0x9E, CHR 0xE6, CHR 0x94, CHR 0xB6,
     CHR 0xE5, CHR 0x9F, CHR 0xBA, CHR 0xE9, CHR 0x87, CHR 0x91]"

text \<open>period end, paid-in fund capital: U+671F U+672B U+5B9E U+6536 U+57FA U+91D1\<close>

definition zh_end_paid_in_fund :: string where
  "zh_end_paid_in_fund =
     [CHR 0xE6, CHR 0x9C, CHR 0x9F, CHR 0xE6, CHR 0x9C, CHR 0xAB, CHR 0xE5, CHR 0xAE, CHR 0x9E,
     CHR 0xE6, CHR 0x94, CHR 0xB6, CHR 0xE5, CHR 0x9F, CHR 0xBA, CHR 0xE9, CHR 0x87, CHR 0x91]"

text \<open>comparable prior-year period, undistributed profit: U+4E0A U+5E74 U+5EA6 U+53EF U+6BD4 U+533A U+95F4 U+672A U+5206 U+914D U+5229 U+6DA6\<close>

definition zh_cmp_retained_profit :: string where
  "zh_cmp_retained_profit =
     [CHR 0xE4, CHR 0xB8, CHR 0x8A, CHR 0xE5, CHR 0xB9, CHR 0xB4, CHR 0xE5, CHR 0xBA, CHR 0xA6,
     CHR 0xE5, CHR 0x8F, CHR 0xAF, CHR 0xE6, CHR 0xAF, CHR 0x94, CHR 0xE5, CHR 0x8C, CHR 0xBA,
     CHR 0xE9, CHR 0x97, CHR 0xB4, CHR 0xE6, CHR 0x9C, CHR 0xAA, CHR 0xE5, CHR 0x88, CHR 0x86,
     CHR 0xE9, CHR 0x85, CHR 0x8D, CHR 0xE5, CHR 0x88, CHR 0xA9, CHR 0xE6, CHR 0xB6, CHR 0xA6]"

text \<open>period end, undistributed profit: U+671F U+672B U+672A U+5206 U+914D U+5229 U+6DA6\<close>

definition zh_end_retained_profit :: string where
  "zh_end_retained_profit =
     [CHR 0xE6, CHR 0x9C, CHR 0x9F, CHR 0xE6, CHR 0x9C, CHR 0xAB, CHR 0xE6, CHR 0x9C, CHR 0xAA,
     CHR 0xE5, CHR 0x88, CHR 0x86, CHR 0xE9, CHR 0x85, CHR 0x8D, CHR 0xE5, CHR 0x88, CHR 0xA9,
     CHR 0xE6, CHR 0xB6, CHR 0xA6]"

section \<open>Tables and reports\<close>

text \<open>
  A \<^verbatim>\<open>pandas.DataFrame\<close> as the engine reads it: the column labels, and the rows in
  order, every cell already rendered by \<^verbatim>\<open>str\<close>. Every row of a DataFrame has one cell
  per column. The column labels are taken to be distinct, so that \<^verbatim>\<open>row[col]\<close> is the
  cell at the position of \<open>col\<close>.
\<close>

record table =
  columns :: "string list"
  rows :: "string list list"

text \<open>\<^verbatim>\<open>table.empty\<close>: one of the two axes has length 0.\<close>

definition df_empty :: "table \<Rightarrow> bool" where
  "df_empty t = (rows t = [] \<or> columns t = [])"

text \<open>\<^verbatim>\<open>str(row.iloc[0]) if len(row) > 0 else ''\<close>\<close>

definition first_col :: "string list \<Rightarrow> string" where
  "first_col row = (case row of [] \<Rightarrow> [] | c # cs \<Rightarrow> c)"

text \<open>
  A report: the dictionary \<^verbatim>\<open>report.get('tables', {})\<close> in insertion order. The other
  keys of a report are not read by the validators (the year is only logged).
\<close>

record report =
  tables :: "(string \<times> table) list"

section \<open>Extraction from a table\<close>

text \<open>
  \<^verbatim>\<open>DataValidator._extract_value\<close>. The inner loop tries the cells
  \<^verbatim>\<open>range(1, min(len(row), 4))\<close> of a matching row and returns the first that parses;
  when none parses, the outer loop goes on to the next row.
\<close>

fun first_parsed :: "string list \<Rightarrow> real option" where
  "first_parsed [] = None"
| "first_parsed (value_str # rest) =
     (case parse_number value_str of Some v \<Rightarrow> Some v | None \<Rightarrow> first_parsed rest)"

fun extract_value_rows :: "string list list \<Rightarrow> string \<Rightarrow> real option" where
  "extract_value_rows [] item_name = None"
| "extract_value_rows (row # rest) item_name =
     (if py_in item_name (first_col row)
      then (case first_parsed (map (\<lambda>col_idx. row ! col_idx) [1 ..< min (length row) 4]) of
              Some v \<Rightarrow> Some v
            | None \<Rightarrow> extract_value_rows rest item_name)
      else extract_value_rows rest item_name)"

definition extract_value :: "table \<Rightarrow> string \<Rightarrow> real option" where
  "extract_value t item_name =
     (if df_empty t then None else extract_value_rows (rows t) item_name)"

text \<open>
  \<^verbatim>\<open>DataValidator._extract_value_from_column\<close>. The target column is the first whose
  label contains one of the keywords; the first row whose label contains the item name
  decides: its cell is parsed and returned, whatever the outcome.
\<close>

fun find_target_col :: "string list \<Rightarrow> string list \<Rightarrow> nat \<Rightarrow> nat option" where
  "find_target_col [] column_keywords i = None"
| "find_target_col (col # cols) column_keywords i =
     (if list_ex (\<lambda>keyword. py_in keyword col) column_keywords then Some i
      else find_target_col cols column_keywords (Suc i))"

fun extract_from_column_rows :: "string list list \<Rightarrow> string \<Rightarrow> nat \<Rightarrow> real option" where
  "extract_from_column_rows [] item_name target_col = None"
| "extract_from_column_rows (row # rest) item_name target_col =
     (if py_in item_name (first_col row)
      then (if target_col < length row then parse_number (row ! target_col) else None)
      else extract_from_column_rows rest item_name target_col)"

text \<open>
  The guard \<open>target_col < length row\<close> always holds on a DataFrame, where the row has a cell
  for every column.
\<close>

definition extract_value_from_column :: "table \<Rightarrow> string \<Rightarrow> string list \<Rightarrow> real option" where
  "extract_value_from_column t item_name column_keywords =
     (if df_empty t then None
      else case find_target_col (columns t) column_keywords 0 of
             None \<Rightarrow> None
           | Some target_col \<Rightarrow> extract_from_column_rows (rows t) item_name target_col)"

text \<open>
  \<^verbatim>\<open>DataValidator._extract_last_year_value\<close> and
  \<^verbatim>\<open>DataValidator._extract_current_year_value\<close>: the first table named after the balance
  sheet or the income statement that yields a value.
\<close>

fun extract_last_year_value :: "(string \<times> table) list \<Rightarrow> string \<Rightarrow> real option" where
  "extract_last_year_value [] item_name = None"
| "extract_last_year_value ((table_name, t) # rest) item_name =
     (if py_in zh_balance_sheet table_name \<or> py_in zh_income_statement table_name
      then (case extract_value_from_column t item_name [zh_last_year, zh_last_period] of
              Some v \<Rightarrow> Some v
            | None \<Rightarrow> extract_last_year_value rest item_name)
      else extract_last_year_value rest item_name)"

fun extract_current_year_value :: "(string \<times> table) list \<Rightarrow> string \<Rightarrow> real option" where
  "extract_current_year_value [] item_name = None"
| "extract_current_year_value ((table_name, t) # rest) item_name =
     (if py_in zh_balance_sheet table_name \<or> py_in zh_income_statement table_name
      then (case extract_value_from_column t item_name
                   [zh_this_period, zh_period_end, zh_this_year] of
              Some v \<Rightarrow> Some v
            | None \<Rightarrow> extract_current_year_value rest item_name)
      else extract_current_year_value rest item_name)"

section \<open>Cross-year validation: \<^verbatim>\<open>DataValidator.validate_cross_year\<close>\<close>

text \<open>
  The dictionary appended for an inconsistent item. Its \<^verbatim>\<open>type\<close> entry is the constant
  label of the check and is not modelled.
\<close>

record cross_year_diff =
  cy_item :: string
  cy_current_report_last_year :: real
  cy_previous_report :: real
  cy_difference :: real
  cy_difference_rate :: real
  cy_severity :: severity

text \<open>
  One pass of the loop body. The \<^verbatim>\<open>try\<close> around it has nothing to catch here: the two
  extractions are total.
\<close>

definition cross_year_step ::
  "report \<Rightarrow> report \<Rightarrow> cross_year_diff list \<Rightarrow> string \<Rightarrow> cross_year_diff list" where
  "cross_year_step current_report previous_report differences item =
     (case extract_last_year_value (tables current_report) item of
        None \<Rightarrow> differences
      | Some current_last_year_value \<Rightarrow>
          (case extract_current_year_value (tables previous_report) item of
             None \<Rightarrow> differences
           | Some previous_year_value \<Rightarrow>
               if current_last_year_value \<noteq> previous_year_value
               then (let diff = \<bar>current_last_year_value - previous_year_value\<bar>
                     in differences @
                        [\<lparr>cy_item = item,
                          cy_current_report_last_year = current_last_year_value,
                          cy_previous_report = previous_year_value,
                          cy_difference = diff,
                          cy_difference_rate =
                            (if previous_year_value \<noteq> 0 then diff / previous_year_value * 100
                             else 0),
                          cy_severity = High\<rparr>])
               else differences))"

definition validate_cross_year ::
  "report \<Rightarrow> report \<Rightarrow> string list \<Rightarrow> cross_year_diff list" where
  "validate_cross_year current_report previous_report items =
     foldl (cross_year_step current_report previous_report) [] items"

section \<open>Summation check: \<^verbatim>\<open>DataValidator.validate_summation\<close>\<close>

record summation_diff =
  sm_total_item :: string
  sm_sub_items :: "string list"
  sm_reported_total :: real
  sm_calculated_total :: real
  sm_difference :: real
  sm_difference_rate :: real
  sm_severity :: severity

text \<open>The inner loop: the values of the sub-items that could be extracted, in order.\<close>

fun collect_sub_values :: "table \<Rightarrow> string list \<Rightarrow> real list" where
  "collect_sub_values t [] = []"
| "collect_sub_values t (sub_item # rest) =
     (case extract_value t sub_item of
        Some v \<Rightarrow> v # collect_sub_values t rest
      | None \<Rightarrow> collect_sub_values t rest)"

definition summation_step ::
  "real \<Rightarrow> table \<Rightarrow> summation_diff list \<Rightarrow> string \<times> string list \<Rightarrow> summation_diff list" where
  "summation_step tolerance t differences rule =
     (let total_item = fst rule; sub_items = snd rule;
          sub_values = collect_sub_values t sub_items
      in case extract_value t total_item of
           None \<Rightarrow> differences
         | Some total_value \<Rightarrow>
             if sub_values \<noteq> []
             then (let calculated_total = sum_list sub_values;
                       diff = \<bar>total_value - calculated_total\<bar>
                   in if diff > tolerance
                      then differences @
                        [\<lparr>sm_total_item = total_item,
                          sm_sub_items = sub_items,
                          sm_reported_total = total_value,
                          sm_calculated_total = calculated_total,
                          sm_difference = diff,
                          sm_difference_rate =
                            (if total_value \<noteq> 0 then diff / total_value * 100 else 0),
                          sm_severity = assess_severity diff total_value\<rparr>]
                      else differences)
             else differences)"

text \<open>
  The rules are a dictionary \<^verbatim>\<open>{total_item: [sub_items]}\<close>, iterated in insertion
  order; \<open>tolerance\<close> is the field of the validator.
\<close>

definition validate_summation ::
  "real \<Rightarrow> table \<Rightarrow> (string \<times> string list) list \<Rightarrow> summation_diff list" where
  "validate_summation tolerance t summation_rules =
     foldl (summation_step tolerance t) [] summation_rules"



section \<open>Cross-year consistency: \<^verbatim>\<open>FinancialReconciliation.validate_cross_year_consistency\<close>\<close>

text \<open>
  The list \<^verbatim>\<open>cross_year_items\<close> of the method: the key read from the data of the
  current year, the key read from the data of the previous year, and the displayed name.
\<close>

definition cross_year_items :: "(string \<times> string \<times> string) list" where
  "cross_year_items =
     [(zh_cmp_total_assets, zh_end_total_assets, zh_total_assets),
      (zh_cmp_liabilities_sum, zh_end_liabilities_sum, zh_liabilities_sum),
      (zh_cmp_net_assets_sum, zh_end_net_assets_sum, zh_net_assets_sum),
      (zh_prev_total_revenue, zh_cur_total_revenue, zh_total_revenue),
      (zh_prev_comprehensive_income, zh_cur_comprehensive_income, zh_comprehensive_income),
      (zh_cmp_paid_in_fund, zh_end_paid_in_fund, zh_paid_in_fund),
      (zh_cmp_retained_profit, zh_end_retained_profit, zh_retained_profit)]"

text \<open>
  The dictionary appended for an item. Its \<^verbatim>\<open>status\<close> and \<^verbatim>\<open>formula\<close> entries are
  texts rendered from \<open>is_pass\<close> and from the name, and are not modelled.
\<close>

record consistency_result =
  cr_item :: string
  cr_current_year_comparable :: real
  cr_previous_year_current :: real
  cr_difference :: real
  cr_is_pass :: bool

definition consistency_step ::
  "real \<Rightarrow> (string \<rightharpoonup> real) \<Rightarrow> (string \<rightharpoonup> real) \<Rightarrow> consistency_result list
   \<Rightarrow> string \<times> string \<times> string \<Rightarrow> consistency_result list" where
  "consistency_step tolerance current_year_data previous_year_data results key =
     (case key of (current_key, previous_key, item_name) \<Rightarrow>
        (case current_year_data current_key of
           None \<Rightarrow> results
         | Some current_value \<Rightarrow>
             (case previous_year_data previous_key of
                None \<Rightarrow> results
              | Some previous_value \<Rightarrow>
                  (let difference = \<bar>current_value - previous_value\<bar>;
                       is_pass = (difference \<le> tolerance)
                   in results @
                      [\<lparr>cr_item = item_name,
                        cr_current_year_comparable = current_value,
                        cr_previous_year_current = previous_value,
                        cr_difference = difference,
                        cr_is_pass = is_pass\<rparr>]))))"

definition validate_cross_year_consistency ::
  "real \<Rightarrow> (string \<rightharpoonup> real) \<Rightarrow> (string \<rightharpoonup> real) \<Rightarrow> consistency_result list" where
  "validate_cross_year_consistency tolerance current_year_data previous_year_data =
     foldl (consistency_step tolerance current_year_data previous_year_data) [] cross_year_items"

section \<open>Synonym resolver: \<^verbatim>\<open>ReconciliationRules.find_matching_items\<close>\<close>

text \<open>
  The two synonym dictionaries of the class, in the order of the source. No key occurs twice.
\<close>

definition BALANCE_SHEET_RULES :: "(string \<times> string list) list" where
  "BALANCE_SHEET_RULES =
     [(zh_total_assets, [zh_assets_sum, zh_assets_amount, zh_all_assets]),
      (zh_total_liabilities, [zh_liabilities_sum, zh_liabilities_amount, zh_all_liabilities]),
      (zh_net_assets, [zh_owners_equity, zh_fund_net_assets, zh_net_assets_sum]),
      (zh_current_assets, [zh_current_assets_sum, zh_current_assets_total]),
      (zh_noncurrent_assets, [zh_noncurrent_assets_sum, zh_noncurrent_assets_total]),
      (zh_cash, [zh_bank_deposits, zh_cash_on_hand, zh_cash_sum]),
      (zh_trading_assets, [zh_fvtpl_assets, zh_trading_assets_sum]),
      (zh_receivables, [zh_accounts_receivable, zh_notes_receivable, zh_receivables_sum]),
      (zh_current_liabilities, [zh_current_liabilities_sum, zh_current_liabilities_total]),
      (zh_payables, [zh_accounts_payable, zh_notes_payable, zh_payables_sum])]"

definition INCOME_STATEMENT_RULES :: "(string \<times> string list) list" where
  "INCOME_STATEMENT_RULES =
     [(zh_revenue, [zh_income_sum, zh_revenue_sum, zh_all_income]),
      (zh_cost, [zh_cost_sum, zh_op_cost_sum, zh_all_cost]),
      (zh_net_profit, [zh_period_profit, zh_net_profit_sum, zh_total_profit]),
      (zh_invest_income, [zh_invest_income_sum, zh_invest_income_amount]),
      (zh_fv_gain, [zh_fv_gain_loss, zh_fv_gain_sum])]"

text \<open>\<^verbatim>\<open>d.get(key, default)\<close>\<close>

definition dict_get :: "('k \<times> 'v) list \<Rightarrow> 'k \<Rightarrow> 'v \<Rightarrow> 'v" where
  "dict_get d key dflt = (case map_of d key of None \<Rightarrow> dflt | Some v \<Rightarrow> v)"

text \<open>
  The synonyms of the main item: the entry of the balance sheet rules, else (\<^verbatim>\<open>not
  synonyms\<close>: the list is empty) the entry of the income statement rules, else the item
  itself.
\<close>

definition find_synonyms :: "string \<Rightarrow> string list" where
  "find_synonyms main_item =
     (let synonyms = dict_get BALANCE_SHEET_RULES main_item [];
          synonyms = (if synonyms = [] then dict_get INCOME_STATEMENT_RULES main_item []
                      else synonyms);
          synonyms = (if synonyms = [] then [main_item] else synonyms)
      in synonyms)"

text \<open>The inner loop, left by \<^verbatim>\<open>break\<close> at the first synonym that matches.\<close>

fun synonym_matches :: "string list \<Rightarrow> string \<Rightarrow> bool" where
  "synonym_matches [] note_item = False"
| "synonym_matches (synonym # rest) note_item =
     (if py_in synonym note_item \<or> py_in note_item synonym then True
      else synonym_matches rest note_item)"

definition find_matching_items :: "string \<Rightarrow> string list \<Rightarrow> string list" where
  "find_matching_items main_item note_items =
     foldl (\<lambda>matches note_item.
              if synonym_matches (find_synonyms main_item) note_item
              then matches @ [note_item] else matches)
           [] note_items"

section \<open>Table reconciler: \<^verbatim>\<open>DataValidator._reconcile_tables\<close>\<close>

record reconciliation_diff =
  rc_main_table :: string
  rc_note_table :: string
  rc_main_item :: string
  rc_note_item :: string
  rc_main_value :: real
  rc_note_value :: real
  rc_difference :: real
  rc_difference_rate :: real
  rc_severity :: severity

text \<open>\<^verbatim>\<open>table.iloc[:, 0].astype(str).tolist()\<close>: the labels of the rows.\<close>

definition first_column :: "table \<Rightarrow> string list" where
  "first_column t = map first_col (rows t)"

text \<open>The loop over the matching note items, for one main item and its value.\<close>

definition note_step ::
  "real \<Rightarrow> table \<Rightarrow> string \<Rightarrow> string \<Rightarrow> string \<Rightarrow> real option
   \<Rightarrow> reconciliation_diff list \<Rightarrow> string \<Rightarrow> reconciliation_diff list" where
  "note_step tolerance note_table main_name note_name main_item main_value differences note_item =
     (case main_value of
        None \<Rightarrow> differences
      | Some mv \<Rightarrow>
          (case extract_value note_table note_item of
             None \<Rightarrow> differences
           | Some nv \<Rightarrow>
               (let diff = \<bar>mv - nv\<bar>
                in if diff > tolerance
                   then differences @
                     [\<lparr>rc_main_table = main_name, rc_note_table = note_name,
                       rc_main_item = main_item, rc_note_item = note_item,
                       rc_main_value = mv, rc_note_value = nv,
                       rc_difference = diff,
                       rc_difference_rate = (if mv \<noteq> 0 then diff / mv * 100 else 0),
                       rc_severity = assess_severity diff mv\<rparr>]
                   else differences)))"

text \<open>
  The loop over the main items: blank labels are skipped; the value of the main item is
  extracted once, and only when some note item matches.
\<close>

definition main_step ::
  "real \<Rightarrow> table \<Rightarrow> table \<Rightarrow> string \<Rightarrow> string \<Rightarrow> string list
   \<Rightarrow> reconciliation_diff list \<Rightarrow> string \<Rightarrow> reconciliation_diff list" where
  "main_step tolerance main_table note_table main_name note_name note_items differences main_item =
     (if main_item = [] \<or> strip main_item = [] then differences
      else (let matching_note_items = find_matching_items main_item note_items
            in if matching_note_items \<noteq> []
               then foldl (note_step tolerance note_table main_name note_name main_item
                             (extract_value main_table main_item))
                          differences matching_note_items
               else differences))"

definition reconcile_tables ::
  "real \<Rightarrow> table \<Rightarrow> table \<Rightarrow> string \<Rightarrow> string \<Rightarrow> reconciliation_diff list" where
  "reconcile_tables tolerance main_table note_table main_name note_name =
     (if df_empty main_table then []
      else (let main_items = first_column main_table;
                note_items = (if \<not> df_empty note_table then first_column note_table else [])
            in foldl (main_step tolerance main_table note_table main_name note_name note_items)
                     [] main_items))"

section \<open>Mapped reconciliation: \<^verbatim>\<open>DataValidator.validate_reconciliation\<close>\<close>

record mapping_diff =
  md_main_item :: string
  md_note_item :: string
  md_main_value :: real
  md_note_value :: real
  md_difference :: real
  md_difference_rate :: real
  md_severity :: severity

text \<open>
  One pass of the loop over \<^verbatim>\<open>mapping.items()\<close>, a dictionary from main items to
  note items in insertion order.
\<close>

definition mapping_step ::
  "real \<Rightarrow> table \<Rightarrow> table \<Rightarrow> mapping_diff list \<Rightarrow> string \<times> string \<Rightarrow> mapping_diff list" where
  "mapping_step tolerance main_table note_table differences pair =
     (let main_item = fst pair; note_item = snd pair
      in case extract_value main_table main_item of
           None \<Rightarrow> differences
         | Some mv \<Rightarrow>
             (case extract_value note_table note_item of
                None \<Rightarrow> differences
              | Some nv \<Rightarrow>
                  (let diff = \<bar>mv - nv\<bar>
                   in if diff > tolerance
                      then differences @
                        [\<lparr>md_main_item = main_item, md_note_item = note_item,
                          md_main_value = mv, md_note_value = nv,
                          md_difference = diff,
                          md_difference_rate = (if mv \<noteq> 0 then diff / mv * 100 else 0),
                          md_severity = assess_severity diff mv\<rparr>]
                      else differences)))"

definition validate_reconciliation ::
  "real \<Rightarrow> table \<Rightarrow> table \<Rightarrow> (string \<times> string) list \<Rightarrow> mapping_diff list" where
  "validate_reconciliation tolerance main_table note_table mapping =
     foldl (mapping_step tolerance main_table note_table) [] mapping"

section \<open>Rule evaluator: \<^verbatim>\<open>FinancialReconciliation._check_rule\<close>\<close>

text \<open>
  A rule of \<^verbatim>\<open>_init_reconciliation_rules\<close>: its name, its formula as text, the items it
  needs and its check, a function from the financial data to a difference. The checks of the
  source are absolute values of sums and differences of \<^verbatim>\<open>data.get(key, 0)\<close> and raise
  nothing on a \<^verbatim>\<open>Dict[str, float]\<close>.
\<close>

record reconciliation_rule =
  rule_name :: string
  rule_formula :: string
  rule_items :: "string list"
  rule_check :: "(string \<rightharpoonup> real) \<Rightarrow> real"

text \<open>\<^verbatim>\<open>data.get(key, 0)\<close>\<close>

definition get0 :: "(string \<rightharpoonup> real) \<Rightarrow> string \<Rightarrow> real" where
  "get0 data key = (case data key of None \<Rightarrow> 0 | Some v \<Rightarrow> v)"

text \<open>balance of assets and liabilities: U+8D44 U+4EA7 U+8D1F U+503A U+5E73 U+8861\<close>

definition zh_balance_name :: string where
  "zh_balance_name =
     [CHR 0xE8, CHR 0xB5, CHR 0x84, CHR 0xE4, CHR 0xBA, CHR 0xA7, CHR 0xE8, CHR 0xB4, CHR 0x9F,
     CHR 0xE5, CHR 0x80, CHR 0xBA, CHR 0xE5, CHR 0xB9, CHR 0xB3, CHR 0xE8, CHR 0xA1, CHR 0xA1]"

text \<open>total assets = liabilities sum + net assets sum: U+8D44 U+4EA7 U+603B U+8BA1 U+0020 U+003D U+0020 U+8D1F U+503A U+5408 U+8BA1 U+0020 U+002B U+0020 U+51C0 U+8D44 U+4EA7 U+5408 U+8BA1\<close>

definition zh_balance_formula :: string where
  "zh_balance_formula =
     [CHR 0xE8, CHR 0xB5, CHR 0x84, CHR 0xE4, CHR 0xBA, CHR 0xA7, CHR 0xE6, CHR 0x80, CHR 0xBB,
     CHR 0xE8, CHR 0xAE, CHR 0xA1, CHR 0x20, CHR 0x3D, CHR 0x20, CHR 0xE8, CHR 0xB4, CHR 0x9F,
     CHR 0xE5, CHR 0x80, CHR 0xBA, CHR 0xE5, CHR 0x90, CHR 0x88, CHR 0xE8, CHR 0xAE, CHR 0xA1,
     CHR 0x20, CHR 0x2B, CHR 0x20, CHR 0xE5, CHR 0x87, CHR 0x80, CHR 0xE8, CHR 0xB5, CHR 0x84,
     CHR 0xE4, CHR 0xBA, CHR 0xA7, CHR 0xE5, CHR 0x90, CHR 0x88, CHR 0xE8, CHR 0xAE, CHR 0xA1]"

text \<open>liabilities and net assets, total = total assets: U+8D1F U+503A U+548C U+51C0 U+8D44 U+4EA7 U+603B U+8BA1 U+0020 U+003D U+0020 U+8D44 U+4EA7 U+603B U+8BA1\<close>

definition zh_total_equality_formula :: string where
  "zh_total_equality_formula =
     [CHR 0xE8, CHR 0xB4, CHR 0x9F, CHR 0xE5, CHR 0x80, CHR 0xBA, CHR 0xE5, CHR 0x92, CHR 0x8C,
     CHR 0xE5, CHR 0x87, CHR 0x80, CHR 0xE8, CHR 0xB5, CHR 0x84, CHR 0xE4, CHR 0xBA, CHR 0xA7,
     CHR 0xE6, CHR 0x80, CHR 0xBB, CHR 0xE8, CHR 0xAE, CHR 0xA1, CHR 0x20, CHR 0x3D, CHR 0x20,
     CHR 0xE8, CHR 0xB5, CHR 0x84, CHR 0xE4, CHR 0xBA, CHR 0xA7, CHR 0xE6, CHR 0x80, CHR 0xBB,
     CHR 0xE8, CHR 0xAE, CHR 0xA1]"

text \<open>The first and the third rule of the group \<^verbatim>\<open>balance_sheet_internal\<close>.\<close>

definition rule_balance :: reconciliation_rule where
  "rule_balance =
     \<lparr>rule_name = zh_balance_name,
      rule_formula = zh_balance_formula,
      rule_items = [zh_total_assets, zh_liabilities_sum, zh_net_assets_sum],
      rule_check = (\<lambda>data. \<bar>get0 data zh_total_assets
                              - (get0 data zh_liabilities_sum + get0 data zh_net_assets_sum)\<bar>)\<rparr>"

definition rule_total_equality :: reconciliation_rule where
  "rule_total_equality =
     \<lparr>rule_name = zh_liabilities_and_net_assets,
      rule_formula = zh_total_equality_formula,
      rule_items = [zh_liabilities_and_net_assets, zh_total_assets],
      rule_check = (\<lambda>data. \<bar>get0 data zh_liabilities_and_net_assets
                              - get0 data zh_total_assets\<bar>)\<rparr>"

text \<open>
  The result dictionary. Its \<^verbatim>\<open>status\<close> entry is a text rendered from \<open>is_pass\<close> and
  is not modelled; \<^verbatim>\<open>values\<close> lists the items with their values.
\<close>

record rule_result =
  rr_category :: string
  rr_name :: string
  rr_formula :: string
  rr_items :: "string list"
  rr_values :: "(string \<times> real) list"
  rr_difference :: real
  rr_is_pass :: bool

text \<open>
  The method. The \<^verbatim>\<open>except Exception\<close> branch returns \<^verbatim>\<open>None\<close>; with a check
  that raises nothing it is never entered.
\<close>

definition check_rule ::
  "real \<Rightarrow> reconciliation_rule \<Rightarrow> (string \<rightharpoonup> real) \<Rightarrow> string \<Rightarrow> rule_result option" where
  "check_rule tolerance rule financial_data category =
     (let missing_items = filter (\<lambda>item. financial_data item = None) (rule_items rule)
      in if missing_items \<noteq> [] then None
         else (let difference = rule_check rule financial_data;
                   values = map (\<lambda>item. (item, get0 financial_data item)) (rule_items rule);
                   is_pass = (difference \<le> tolerance)
               in Some \<lparr>rr_category = category,
                         rr_name = rule_name rule,
                         rr_formula = rule_formula rule,
                         rr_items = rule_items rule,
                         rr_values = values,
                         rr_difference = difference,
                         rr_is_pass = is_pass\<rparr>))"

section \<open>Similarity search\<close>

text \<open>
  Both searches rank a corpus by the cosine similarities that scikit-learn computed; the
  model starts from these numbers. The sorting routines of numpy and pandas are parameters:
  they fix the order of their result only up to the order of equal keys.
\<close>



text \<open>
  \<^verbatim>\<open>CaseRetriever.search_cases\<close> of \<^verbatim>\<open>product_design_ai/case_retriever.py\<close>. A row
  is a case of the library with the column \<^verbatim>\<open>similarity\<close> added.
\<close>

record case_row =
  cr_case_id :: string
  cr_product_type :: string
  cr_case_type :: string
  cr_similarity :: real

text \<open>\<^verbatim>\<open>df.head(n)\<close>: the first \<open>n\<close> rows, or all but the last \<open>-n\<close> for a negative \<open>n\<close>.\<close>

definition df_head :: "int \<Rightarrow> 'a list \<Rightarrow> 'a list" where
  "df_head n xs = (if 0 \<le> n then take (nat n) xs else take (length xs - nat (- n)) xs)"

text \<open>
  The two optional filters (\<^verbatim>\<open>if product_type:\<close> is false for \<^verbatim>\<open>None\<close> and for the
  empty string), then \<^verbatim>\<open>sort_values('similarity', ascending=False).head(top_n)\<close>.
\<close>

definition search_cases ::
  "(case_row list \<Rightarrow> case_row list) \<Rightarrow> case_row list \<Rightarrow> string option \<Rightarrow> string option \<Rightarrow> int
   \<Rightarrow> case_row list" where
  "search_cases sort_values results product_type case_type top_n =
     (let results = (case product_type of
                       None \<Rightarrow> results
                     | Some pt \<Rightarrow> if pt = [] then results
                                 else filter (\<lambda>r. cr_product_type r = pt) results);
          results = (case case_type of
                       None \<Rightarrow> results
                     | Some ct \<Rightarrow> if ct = [] then results
                                 else filter (\<lambda>r. cr_case_type r = ct) results)
      in df_head top_n (sort_values results))"





section \<open>Duplicate detection: \<^verbatim>\<open>SettlementAIAnalyzer.detect_duplicates\<close>\<close>








subsection \<open>The clustering of scikit-learn\<close>












subsection \<open>Two interpreter runs\<close>





section \<open>Properties\<close>

subsection \<open>Strings\<close>

lemma startswith_prefix: "startswith s p = prefix p s"
  by (induction s p rule: startswith.induct) auto

lemma py_in_sublist: "py_in a b = sublist a b"
proof (induction b)
  case Nil
  show ?case by simp
next
  case (Cons c cs)
  show ?case
  proof (cases a)
    case Nil
    then show ?thesis by simp
  next
    case (Cons x xs)
    with Cons.IH show ?thesis by (auto simp add: startswith_prefix sublist_code)
  qed
qed

subsection \<open>The severity classifier\<close>

text \<open>
  Claim C4. For a non-negative difference \<open>d\<close> and a base value \<open>b\<close>: when \<open>b \<noteq> 0\<close> the
  class is High exactly when \<open>|d/b| > 0.01\<close> or \<open>d > 1000\<close>, otherwise Medium exactly when
  \<open>|d/b| > 0.001\<close> or \<open>d > 100\<close>, otherwise Low; when \<open>b = 0\<close> it is High if \<open>d > 100\<close> and
  Medium otherwise, never Low.
\<close>

theorem assess_severity_classes:
  assumes "0 \<le> d"
  shows "(b \<noteq> 0 \<longrightarrow>
            (assess_severity d b = High \<longleftrightarrow> \<bar>d / b\<bar> > 0.01 \<or> d > 1000)
          \<and> (assess_severity d b = Medium \<longleftrightarrow>
                \<not> (\<bar>d / b\<bar> > 0.01 \<or> d > 1000) \<and> (\<bar>d / b\<bar> > 0.001 \<or> d > 100))
          \<and> (assess_severity d b = Low \<longleftrightarrow>
                \<not> (\<bar>d / b\<bar> > 0.01 \<or> d > 1000) \<and> \<not> (\<bar>d / b\<bar> > 0.001 \<or> d > 100)))
       \<and> (b = 0 \<longrightarrow>
            (assess_severity d b = High \<longleftrightarrow> d > 100)
          \<and> (assess_severity d b = Medium \<longleftrightarrow> \<not> d > 100)
          \<and> assess_severity d b \<noteq> Low)"
  by (simp add: assess_severity_def Let_def)

theorem assess_severity_classes_witness:
  "(0::real) \<le> 5 \<and> assess_severity 5 1000 = Medium \<and> assess_severity 5 0 = Medium
   \<and> assess_severity 5 0 \<noteq> Low"
  using assess_severity_classes [of 5 1000] assess_severity_classes [of 5 0]
  by simp

subsection \<open>The value extractor\<close>























lemmas pn_defs = parse_number_exn_def parse_number_try_def strip_def replace_char_def
  re_search_num_def py_float_def is_num_char_def is_digit_def is_space_def dec_val_def digit_val_def
  Let_def











subsection \<open>Unfolding the labels\<close>

lemmas zh_defs =
  zh_balance_sheet_def zh_income_statement_def zh_last_year_def zh_last_period_def
  zh_this_period_def zh_period_end_def zh_this_year_def zh_total_assets_def
  zh_assets_sum_def zh_assets_amount_def zh_all_assets_def zh_total_liabilities_def
  zh_liabilities_sum_def zh_liabilities_amount_def zh_all_liabilities_def zh_net_assets_def
  zh_owners_equity_def zh_fund_net_assets_def zh_net_assets_sum_def zh_current_assets_def
  zh_current_assets_sum_def zh_current_assets_total_def zh_noncurrent_assets_def zh_noncurrent_assets_sum_def
  zh_noncurrent_assets_total_def zh_cash_def zh_bank_deposits_def zh_cash_on_hand_def
  zh_cash_sum_def zh_trading_assets_def zh_fvtpl_assets_def zh_trading_assets_sum_def
  zh_receivables_def zh_accounts_receivable_def zh_notes_receivable_def zh_receivables_sum_def
  zh_current_liabilities_def zh_current_liabilities_sum_def zh_current_liabilities_total_def zh_payables_def
  zh_accounts_payable_def zh_notes_payable_def zh_payables_sum_def zh_revenue_def
  zh_income_sum_def zh_revenue_sum_def zh_all_income_def zh_cost_def
  zh_cost_sum_def zh_op_cost_sum_def zh_all_cost_def zh_net_profit_def
  zh_period_profit_def zh_net_profit_sum_def zh_total_profit_def zh_invest_income_def
  zh_invest_income_sum_def zh_invest_income_amount_def zh_fv_gain_def zh_fv_gain_loss_def
  zh_fv_gain_sum_def zh_item_def zh_this_period_amount_def zh_last_period_amount_def
  zh_liabilities_and_net_assets_def zh_paid_in_fund_def zh_retained_profit_def zh_total_revenue_def
  zh_comprehensive_income_def zh_cmp_total_assets_def zh_end_total_assets_def zh_cmp_liabilities_sum_def
  zh_end_liabilities_sum_def zh_cmp_net_assets_sum_def zh_end_net_assets_sum_def zh_prev_total_revenue_def
  zh_cur_total_revenue_def zh_prev_comprehensive_income_def zh_cur_comprehensive_income_def zh_cmp_paid_in_fund_def
  zh_end_paid_in_fund_def zh_cmp_retained_profit_def zh_end_retained_profit_def
  zh_balance_name_def zh_balance_formula_def zh_total_equality_formula_def

subsection \<open>Loops that append to a list\<close>

lemma foldl_emit:
  assumes "\<And>acc x. f acc x = acc @ g x"
  shows "foldl f acc xs = acc @ concat (map g xs)"
  by (induction xs arbitrary: acc) (simp_all add: assms)

subsection \<open>Extraction from a table\<close>

lemma first_parsed_append:
  "first_parsed (xs @ ys) = (case first_parsed xs of Some v \<Rightarrow> Some v | None \<Rightarrow> first_parsed ys)"
  by (induction xs) (simp_all split: option.splits)

lemma extract_value_rows_concat:
  "extract_value_rows rs item =
     first_parsed (concat (map (\<lambda>row. map (\<lambda>col_idx. row ! col_idx) [1 ..< min (length row) 4])
                    (filter (\<lambda>row. py_in item (first_col row)) rs)))"
  by (induction rs) (simp_all add: first_parsed_append split: option.splits)

lemma extract_from_column_rows_find:
  "extract_from_column_rows rs item j =
     (case List.find (\<lambda>row. py_in item (first_col row)) rs of
        None \<Rightarrow> None
      | Some row \<Rightarrow> if j < length row then parse_number (row ! j) else None)"
  by (induction rs) simp_all

subsection \<open>The summation check\<close>






lemma summation_step_append:
  "summation_step tolerance t acc rule = acc @ summation_step tolerance t [] rule"
proof (cases "extract_value t (fst rule)")
  case None
  then show ?thesis by (simp add: summation_step_def Let_def)
next
  case (Some v)
  then show ?thesis
    by (cases "collect_sub_values t (snd rule) = []";
        cases "tolerance < \<bar>v - sum_list (collect_sub_values t (snd rule))\<bar>")
       (simp_all only: summation_step_def Let_def option.case simp_thms if_True if_False append_Nil append_Nil2)
qed

lemma collect_sub_values_eq:
  "collect_sub_values t subs = map the (filter (\<lambda>v. v \<noteq> None) (map (extract_value t) subs))"
  by (induction subs) (auto split: option.splits)

lemma validate_summation_concat:
  "validate_summation tolerance t rules = concat (map (summation_step tolerance t []) rules)"
proof -
  have "foldl (summation_step tolerance t) [] rules
        = [] @ concat (map (summation_step tolerance t []) rules)"
    by (rule foldl_emit) (rule summation_step_append)
  then show ?thesis by (simp add: validate_summation_def)
qed




lemma summation_step_emit:
  "extract_value t (fst rule) = Some v \<Longrightarrow>
   collect_sub_values t (snd rule) \<noteq> [] \<Longrightarrow>
   tolerance < \<bar>v - sum_list (collect_sub_values t (snd rule))\<bar> \<Longrightarrow>
   summation_step tolerance t [] rule =
     [\<lparr>sm_total_item = fst rule, sm_sub_items = snd rule,
       sm_reported_total = v,
       sm_calculated_total = sum_list (collect_sub_values t (snd rule)),
       sm_difference = \<bar>v - sum_list (collect_sub_values t (snd rule))\<bar>,
       sm_difference_rate =
         (if v \<noteq> 0 then \<bar>v - sum_list (collect_sub_values t (snd rule))\<bar> / v * 100 else 0),
       sm_severity = assess_severity \<bar>v - sum_list (collect_sub_values t (snd rule))\<bar> v\<rparr>]"
  by (simp only: summation_step_def Let_def option.case simp_thms if_True append_Nil)



lemma validate_summation_complete:
  assumes "(total_item, sub_items) \<in> set rules"
    and "extract_value t total_item = Some total_value"
    and "filter (\<lambda>v. v \<noteq> None) (map (extract_value t) sub_items) \<noteq> []"
    and "\<bar>total_value - sum_list (map the (filter (\<lambda>v. v \<noteq> None) (map (extract_value t) sub_items)))\<bar> > tolerance"
  shows "\<exists>r \<in> set (validate_summation tolerance t rules).
           sm_total_item r = total_item \<and> sm_sub_items r = sub_items
         \<and> sm_reported_total r = total_value"
proof -
  have c: "collect_sub_values t (snd (total_item, sub_items)) \<noteq> []"
    using assms(3) unfolding collect_sub_values_eq by simp
  have d: "tolerance < \<bar>total_value - sum_list (collect_sub_values t (snd (total_item, sub_items)))\<bar>"
    using assms(4) unfolding collect_sub_values_eq by simp
  have e: "extract_value t (fst (total_item, sub_items)) = Some total_value"
    using assms(2) by simp
  from summation_step_emit [OF e c d]
  obtain r where r: "summation_step tolerance t [] (total_item, sub_items) = [r]"
    and "sm_total_item r = total_item" "sm_sub_items r = sub_items" "sm_reported_total r = total_value"
    by simp
  moreover from r assms(1) have "r \<in> set (validate_summation tolerance t rules)"
    unfolding validate_summation_concat by force
  ultimately show ?thesis by blast
qed



subsection \<open>Which row decides an extraction\<close>

lemma first_parsed_find:
  "first_parsed cells =
     (case List.find (\<lambda>value_str. parse_number value_str \<noteq> None) cells of
        None \<Rightarrow> None
      | Some value_str \<Rightarrow> parse_number value_str)"
  by (induction cells) (auto split: option.splits)

lemma extract_value_first_parsable:
  "extract_value t item_name =
     (if df_empty t then None
      else case List.find (\<lambda>value_str. parse_number value_str \<noteq> None)
                  (concat (map (\<lambda>row. map (\<lambda>col_idx. row ! col_idx) [1 ..< min (length row) 4])
                             (filter (\<lambda>row. py_in item_name (first_col row)) (rows t)))) of
             None \<Rightarrow> None
           | Some value_str \<Rightarrow> parse_number value_str)"
  by (simp only: extract_value_def extract_value_rows_concat first_parsed_find)

lemma extract_value_from_column_first_row:
  "extract_value_from_column t item_name column_keywords =
     (if df_empty t then None
      else case find_target_col (columns t) column_keywords 0 of
             None \<Rightarrow> None
           | Some target_col \<Rightarrow>
               (case List.find (\<lambda>row. py_in item_name (first_col row)) (rows t) of
                  None \<Rightarrow> None
                | Some row \<Rightarrow>
                    if target_col < length row then parse_number (row ! target_col) else None))"
  by (simp only: extract_value_from_column_def extract_from_column_rows_find)

text \<open>
  Claim C3 as stated fails on \<^verbatim>\<open>_extract_value\<close>: the first row labelled \<open>A\<close> has an
  unparsable cell, and the value of the second row labelled \<open>A\<close> is returned, not null.
\<close>

theorem extract_value_later_row:
  "parse_number ''n/a'' = None
   \<and> extract_value \<lparr>columns = [''item'', ''amount''],
                     rows = [[''A'', ''n/a''], [''A'', ''5'']]\<rparr> ''A'' = Some 5"
proof -
  have p: "parse_number ''n/a'' = None" "parse_number ''5'' = Some 5"
    by (simp_all add: parse_number_def pn_defs)
  then show ?thesis
    by (simp add: extract_value_def df_empty_def first_col_def)
qed

text \<open>
  Claim C3, amended. The extractor without a column selector, \<^verbatim>\<open>_extract_value\<close>,
  returns the first cell that parses among the cells 1 to 3 of the rows whose label contains
  the item name, rows from top to bottom and cells from left to right: a matching row without
  a parsable cell hands over to the next matching row. The extractor with a column selector,
  \<^verbatim>\<open>_extract_value_from_column\<close>, is decided by the first matching row alone: it
  returns what the selected cell of that row parses to, null included.
\<close>

theorem extract_first_match_policy:
  "extract_value t item_name =
     (if df_empty t then None
      else case List.find (\<lambda>value_str. parse_number value_str \<noteq> None)
                  (concat (map (\<lambda>row. map (\<lambda>col_idx. row ! col_idx) [1 ..< min (length row) 4])
                             (filter (\<lambda>row. py_in item_name (first_col row)) (rows t)))) of
             None \<Rightarrow> None
           | Some value_str \<Rightarrow> parse_number value_str)
   \<and> extract_value_from_column t item_name column_keywords =
     (if df_empty t then None
      else case find_target_col (columns t) column_keywords 0 of
             None \<Rightarrow> None
           | Some target_col \<Rightarrow>
               (case List.find (\<lambda>row. py_in item_name (first_col row)) (rows t) of
                  None \<Rightarrow> None
                | Some row \<Rightarrow>
                    if target_col < length row then parse_number (row ! target_col) else None))"
  using extract_value_first_parsable extract_value_from_column_first_row by (rule conjI)

theorem extract_first_match_policy_witness:
  "\<not> df_empty \<lparr>columns = [''item'', ''amount''], rows = [[''A'', ''n/a''], [''A'', ''5'']]\<rparr>
   \<and> extract_value \<lparr>columns = [''item'', ''amount''],
                     rows = [[''A'', ''n/a''], [''A'', ''5'']]\<rparr> ''A'' = Some 5
   \<and> extract_value_from_column \<lparr>columns = [''item'', ''amount''],
                     rows = [[''A'', ''n/a''], [''A'', ''5'']]\<rparr> ''A'' [''amount''] = None"
proof -
  let ?t = "\<lparr>columns = [''item'', ''amount''], rows = [[''A'', ''n/a''], [''A'', ''5'']]\<rparr>"
  have p: "parse_number ''n/a'' = None" "parse_number ''5'' = Some 5"
    by (simp_all add: parse_number_def pn_defs)
  have e: "\<not> df_empty ?t" by (simp add: df_empty_def)
  from extract_first_match_policy [of ?t "''A''" "[''amount'']"] e p show ?thesis
    by (simp add: first_col_def)
qed

subsection \<open>The cross-year checks\<close>

lemma cross_year_step_append:
  "cross_year_step c p acc item = acc @ cross_year_step c p [] item"
proof (cases "extract_last_year_value (tables c) item")
  case None
  then show ?thesis by (simp only: cross_year_step_def option.case append_Nil2)
next
  case a: (Some a)
  show ?thesis
  proof (cases "extract_current_year_value (tables p) item")
    case None
    with a show ?thesis by (simp only: cross_year_step_def option.case append_Nil2)
  next
    case (Some b)
    with a show ?thesis
      by (cases "a = b") (simp_all only: cross_year_step_def Let_def option.case simp_thms if_True if_False append_Nil append_Nil2)
  qed
qed

lemma validate_cross_year_concat:
  "validate_cross_year c p items = concat (map (cross_year_step c p []) items)"
proof -
  have "foldl (cross_year_step c p) [] items = [] @ concat (map (cross_year_step c p []) items)"
    by (rule foldl_emit) (rule cross_year_step_append)
  then show ?thesis by (simp add: validate_cross_year_def)
qed

lemma cross_year_step_item: "r \<in> set (cross_year_step c p [] item) \<Longrightarrow> cy_item r = item"
  by (auto simp: cross_year_step_def Let_def split: option.splits if_splits)

lemma filter_concat_items:
  assumes "\<And>x r. r \<in> set (g x) \<Longrightarrow> key r = x"
  shows "filter (\<lambda>r. key r = i) (concat (map g xs)) = concat (replicate (count_list xs i) (g i))"
proof (induction xs)
  case Nil
  show ?case by simp
next
  case (Cons x xs)
  have "filter (\<lambda>r. key r = i) (g x) = (if x = i then g i else [])"
    using assms by (auto simp: filter_empty_conv filter_id_conv)
  with Cons show ?case by simp
qed

lemma validate_cross_year_filter:
  "filter (\<lambda>r. cy_item r = i) (validate_cross_year c p items) =
     concat (replicate (count_list items i) (cross_year_step c p [] i))"
  unfolding validate_cross_year_concat
  by (rule filter_concat_items) (rule cross_year_step_item)

lemma concat_replicate_single: "concat (replicate n [x]) = replicate n x"
  by (induction n) simp_all

lemma concat_replicate_Nil: "concat (replicate n []) = []"
  by (induction n) simp_all

lemma validate_cross_year_per_item:
  "filter (\<lambda>r. cy_item r = i) (validate_cross_year c p items) =
     (case extract_last_year_value (tables c) i of
        None \<Rightarrow> []
      | Some a \<Rightarrow>
          (case extract_current_year_value (tables p) i of
             None \<Rightarrow> []
           | Some b \<Rightarrow>
               if a \<noteq> b
               then replicate (count_list items i)
                      \<lparr>cy_item = i, cy_current_report_last_year = a, cy_previous_report = b,
                       cy_difference = \<bar>a - b\<bar>,
                       cy_difference_rate = (if b \<noteq> 0 then \<bar>a - b\<bar> / b * 100 else 0),
                       cy_severity = High\<rparr>
               else []))"
proof (cases "extract_last_year_value (tables c) i")
  case None
  then have "cross_year_step c p [] i = []" by (simp only: cross_year_step_def option.case)
  with None show ?thesis by (simp only: validate_cross_year_filter concat_replicate_Nil option.case)
next
  case a: (Some a)
  show ?thesis
  proof (cases "extract_current_year_value (tables p) i")
    case None
    with a have "cross_year_step c p [] i = []" by (simp only: cross_year_step_def option.case)
    with a None show ?thesis by (simp only: validate_cross_year_filter concat_replicate_Nil option.case)
  next
    case (Some b)
    show ?thesis
    proof (cases "a = b")
      case True
      with a Some have "cross_year_step c p [] i = []"
        by (simp only: cross_year_step_def option.case simp_thms if_False)
      with a Some True show ?thesis
        by (simp only: validate_cross_year_filter concat_replicate_Nil option.case simp_thms if_False)
    next
      case False
      with a Some have "cross_year_step c p [] i =
         [\<lparr>cy_item = i, cy_current_report_last_year = a, cy_previous_report = b,
                       cy_difference = \<bar>a - b\<bar>,
                       cy_difference_rate = (if b \<noteq> 0 then \<bar>a - b\<bar> / b * 100 else 0),
                       cy_severity = High\<rparr>]"
        by (simp only: cross_year_step_def Let_def option.case simp_thms if_True append_Nil)
      with a Some False show ?thesis
        by (simp only: validate_cross_year_filter concat_replicate_single option.case simp_thms if_True)
    qed
  qed
qed

lemma validate_cross_year_High:
  "r \<in> set (validate_cross_year c p items) \<Longrightarrow> cy_severity r = High"
  by (auto simp: validate_cross_year_concat cross_year_step_def Let_def split: option.splits if_splits)

lemma consistency_step_append:
  "consistency_step tol cur prev acc key = acc @ consistency_step tol cur prev [] key"
  by (cases key; cases "cur (fst key)"; cases "prev (fst (snd key))")
     (simp_all add: consistency_step_def Let_def)

lemma validate_cross_year_consistency_concat:
  "validate_cross_year_consistency tol cur prev =
     concat (map (consistency_step tol cur prev []) cross_year_items)"
proof -
  have "foldl (consistency_step tol cur prev) [] cross_year_items
        = [] @ concat (map (consistency_step tol cur prev []) cross_year_items)"
    by (rule foldl_emit) (rule consistency_step_append)
  then show ?thesis by (simp add: validate_cross_year_consistency_def)
qed

text \<open>
  Claim C1 as stated fails on \<^verbatim>\<open>FinancialReconciliation.validate_cross_year_consistency\<close>,
  the cross-year check of the second application: with the tolerance 0.01 that the application
  sets, two values that differ by 0.005 are reported as consistent.
\<close>

theorem cross_year_consistency_within_tolerance:
  "validate_cross_year_consistency 0.01
       [zh_cmp_total_assets \<mapsto> 100.005] [zh_end_total_assets \<mapsto> 100]
     = [\<lparr>cr_item = zh_total_assets, cr_current_year_comparable = 100.005,
         cr_previous_year_current = 100, cr_difference = 0.005, cr_is_pass = True\<rparr>]
   \<and> (100.005 :: real) \<noteq> 100"
  by (simp add: validate_cross_year_consistency_def cross_year_items_def consistency_step_def
        zh_defs)

text \<open>
  Claim C1, amended. \<^verbatim>\<open>DataValidator.validate_cross_year\<close> applies no tolerance: for
  an item name the records of the result are, when both extractions give a value and the two
  values differ, one record of severity High for each occurrence of the name in the list of
  items, and no record otherwise (in particular when an extraction gives null); every record
  has severity High. \<^verbatim>\<open>FinancialReconciliation.validate_cross_year_consistency\<close>
  applies the tolerance: for each of its seven items whose two values are present it reports
  one row, passed exactly when the absolute difference is at most the tolerance.
\<close>

theorem cross_year_exact_and_tolerant:
  "filter (\<lambda>r. cy_item r = i) (validate_cross_year c p items) =
     (case extract_last_year_value (tables c) i of
        None \<Rightarrow> []
      | Some a \<Rightarrow>
          (case extract_current_year_value (tables p) i of
             None \<Rightarrow> []
           | Some b \<Rightarrow>
               if a \<noteq> b
               then replicate (count_list items i)
                      \<lparr>cy_item = i, cy_current_report_last_year = a, cy_previous_report = b,
                       cy_difference = \<bar>a - b\<bar>,
                       cy_difference_rate = (if b \<noteq> 0 then \<bar>a - b\<bar> / b * 100 else 0),
                       cy_severity = High\<rparr>
               else []))
   \<and> (\<forall>r \<in> set (validate_cross_year c p items). cy_severity r = High)
   \<and> validate_cross_year_consistency tolerance cur prev =
       concat (map (\<lambda>(current_key, previous_key, item_name).
                      case cur current_key of
                        None \<Rightarrow> []
                      | Some a \<Rightarrow>
                          (case prev previous_key of
                             None \<Rightarrow> []
                           | Some b \<Rightarrow>
                               [\<lparr>cr_item = item_name, cr_current_year_comparable = a,
                                 cr_previous_year_current = b, cr_difference = \<bar>a - b\<bar>,
                                 cr_is_pass = (\<bar>a - b\<bar> \<le> tolerance)\<rparr>]))
                   cross_year_items)"
proof (intro conjI ballI)
  show "filter (\<lambda>r. cy_item r = i) (validate_cross_year c p items) =
     (case extract_last_year_value (tables c) i of
        None \<Rightarrow> []
      | Some a \<Rightarrow>
          (case extract_current_year_value (tables p) i of
             None \<Rightarrow> []
           | Some b \<Rightarrow>
               if a \<noteq> b
               then replicate (count_list items i)
                      \<lparr>cy_item = i, cy_current_report_last_year = a, cy_previous_report = b,
                       cy_difference = \<bar>a - b\<bar>,
                       cy_difference_rate = (if b \<noteq> 0 then \<bar>a - b\<bar> / b * 100 else 0),
                       cy_severity = High\<rparr>
               else []))"
    by (rule validate_cross_year_per_item)
next
  fix r assume "r \<in> set (validate_cross_year c p items)"
  then show "cy_severity r = High" by (rule validate_cross_year_High)
next
  have h: "consistency_step tolerance cur prev [] key =
        (case key of (current_key, previous_key, item_name) \<Rightarrow>
                      case cur current_key of
                        None \<Rightarrow> []
                      | Some a \<Rightarrow>
                          (case prev previous_key of
                             None \<Rightarrow> []
                           | Some b \<Rightarrow>
                               [\<lparr>cr_item = item_name, cr_current_year_comparable = a,
                                 cr_previous_year_current = b, cr_difference = \<bar>a - b\<bar>,
                                 cr_is_pass = (\<bar>a - b\<bar> \<le> tolerance)\<rparr>]))" for key
    by (simp add: consistency_step_def Let_def split: prod.splits option.splits)
  show "validate_cross_year_consistency tolerance cur prev =
       concat (map (\<lambda>(current_key, previous_key, item_name).
                      case cur current_key of
                        None \<Rightarrow> []
                      | Some a \<Rightarrow>
                          (case prev previous_key of
                             None \<Rightarrow> []
                           | Some b \<Rightarrow>
                               [\<lparr>cr_item = item_name, cr_current_year_comparable = a,
                                 cr_previous_year_current = b, cr_difference = \<bar>a - b\<bar>,
                                 cr_is_pass = (\<bar>a - b\<bar> \<le> tolerance)\<rparr>]))
                   cross_year_items)"
    unfolding validate_cross_year_consistency_concat
    by (rule arg_cong [where f = concat], rule map_cong [OF refl], rule h)
qed

theorem cross_year_exact_and_tolerant_witness:
  "extract_last_year_value (tables 
     \<lparr>tables = [(zh_balance_sheet,
        \<lparr>columns = [zh_item, zh_this_period_amount, zh_last_period_amount],
         rows = [[zh_total_assets, ''1000000'', ''900000'']]\<rparr>)]\<rparr>) zh_total_assets = Some 900000
   \<and> extract_current_year_value (tables 
     \<lparr>tables = [(zh_balance_sheet,
        \<lparr>columns = [zh_item, zh_this_period_amount, zh_last_period_amount],
         rows = [[zh_total_assets, ''900001'', ''800000'']]\<rparr>)]\<rparr>) zh_total_assets = Some 900001
   \<and> filter (\<lambda>r. cy_item r = zh_total_assets)
         (validate_cross_year 
     \<lparr>tables = [(zh_balance_sheet,
        \<lparr>columns = [zh_item, zh_this_period_amount, zh_last_period_amount],
         rows = [[zh_total_assets, ''1000000'', ''900000'']]\<rparr>)]\<rparr> 
     \<lparr>tables = [(zh_balance_sheet,
        \<lparr>columns = [zh_item, zh_this_period_amount, zh_last_period_amount],
         rows = [[zh_total_assets, ''900001'', ''800000'']]\<rparr>)]\<rparr> [zh_total_assets])
       = [\<lparr>cy_item = zh_total_assets, cy_current_report_last_year = 900000,
           cy_previous_report = 900001, cy_difference = 1,
           cy_difference_rate = 100 / 900001, cy_severity = High\<rparr>]
   \<and> validate_cross_year_consistency 0.01
         [zh_cmp_total_assets \<mapsto> 900000] [zh_end_total_assets \<mapsto> 900001]
       = [\<lparr>cr_item = zh_total_assets, cr_current_year_comparable = 900000,
           cr_previous_year_current = 900001, cr_difference = 1, cr_is_pass = False\<rparr>]"
proof -
  let ?c = "
     \<lparr>tables = [(zh_balance_sheet,
        \<lparr>columns = [zh_item, zh_this_period_amount, zh_last_period_amount],
         rows = [[zh_total_assets, ''1000000'', ''900000'']]\<rparr>)]\<rparr>"
  let ?p = "
     \<lparr>tables = [(zh_balance_sheet,
        \<lparr>columns = [zh_item, zh_this_period_amount, zh_last_period_amount],
         rows = [[zh_total_assets, ''900001'', ''800000'']]\<rparr>)]\<rparr>"
  have w1: "extract_last_year_value (tables ?c) zh_total_assets = Some 900000"
    by (simp add: extract_value_from_column_def df_empty_def first_col_def
        parse_number_def pn_defs zh_defs)
  have w2: "extract_current_year_value (tables ?p) zh_total_assets = Some 900001"
    by (simp add: extract_value_from_column_def df_empty_def first_col_def
        parse_number_def pn_defs zh_defs)
  note t = cross_year_exact_and_tolerant
    [of zh_total_assets ?c ?p "[zh_total_assets]" "0.01"
        "[zh_cmp_total_assets \<mapsto> 900000]" "[zh_end_total_assets \<mapsto> 900001]",
      unfolded w1 w2 option.case]
  from t have "filter (\<lambda>r. cy_item r = zh_total_assets)
         (validate_cross_year ?c ?p [zh_total_assets])
       = [\<lparr>cy_item = zh_total_assets, cy_current_report_last_year = 900000,
           cy_previous_report = 900001, cy_difference = 1,
           cy_difference_rate = 100 / 900001, cy_severity = High\<rparr>]"
    by simp
  moreover from t have "validate_cross_year_consistency 0.01
         [zh_cmp_total_assets \<mapsto> 900000] [zh_end_total_assets \<mapsto> 900001]
       = [\<lparr>cr_item = zh_total_assets, cr_current_year_comparable = 900000,
           cr_previous_year_current = 900001, cr_difference = 1, cr_is_pass = False\<rparr>]"
    by (simp add: cross_year_items_def zh_defs)
  ultimately show ?thesis using w1 w2 by simp
qed

subsection \<open>The synonym resolver\<close>

lemma synonym_matches_iff:
  "synonym_matches syns note_item \<longleftrightarrow> (\<exists>a\<in>set syns. py_in a note_item \<or> py_in note_item a)"
  by (induction syns) auto

lemma foldl_filter_append:
  "foldl (\<lambda>matches x. if P x then matches @ [x] else matches) acc xs = acc @ filter P xs"
  by (induction xs arbitrary: acc) simp_all

lemma find_matching_items_filter:
  "find_matching_items main_item note_items =
     filter (\<lambda>note_item. \<exists>a\<in>set (find_synonyms main_item). py_in a note_item \<or> py_in note_item a)
       note_items"
  by (simp add: find_matching_items_def foldl_filter_append synonym_matches_iff)

lemma BALANCE_SHEET_RULES_nonempty: "(k, v) \<in> set BALANCE_SHEET_RULES \<Longrightarrow> v \<noteq> []"
  by (auto simp: BALANCE_SHEET_RULES_def)

lemma INCOME_STATEMENT_RULES_nonempty: "(k, v) \<in> set INCOME_STATEMENT_RULES \<Longrightarrow> v \<noteq> []"
  by (auto simp: INCOME_STATEMENT_RULES_def)

lemma find_synonyms_registered:
  "find_synonyms main_item =
     (case map_of (BALANCE_SHEET_RULES @ INCOME_STATEMENT_RULES) main_item of
        Some synonyms \<Rightarrow> synonyms
      | None \<Rightarrow> [main_item])"
proof (cases "map_of BALANCE_SHEET_RULES main_item")
  case None
  show ?thesis
  proof (cases "map_of INCOME_STATEMENT_RULES main_item")
    case n: None
    with None show ?thesis by (simp add: find_synonyms_def dict_get_def map_add_def)
  next
    case (Some v)
    then have "v \<noteq> []" using INCOME_STATEMENT_RULES_nonempty map_of_SomeD by fast
    with None Some show ?thesis by (simp add: find_synonyms_def dict_get_def map_add_def)
  qed
next
  case (Some v)
  then have "v \<noteq> []" using BALANCE_SHEET_RULES_nonempty map_of_SomeD by fast
  with Some show ?thesis
    by (simp add: find_synonyms_def dict_get_def map_add_def split: option.splits)
qed

lemma rules_keys_distinct: "distinct (map fst (BALANCE_SHEET_RULES @ INCOME_STATEMENT_RULES))"
  by (simp add: BALANCE_SHEET_RULES_def INCOME_STATEMENT_RULES_def zh_defs)

text \<open>
  Claim C8. For a canonical item and a sequence of candidate labels, the resolver returns the
  candidates for which some alias is contained in the label or the label in some alias, where
  the aliases are the registered synonym list of the item when there is one and the item's own
  name otherwise. The result is the candidate sequence filtered: the order is kept and every
  matching entry is returned once, however many aliases match it, so a sequence of distinct
  labels gives distinct matches.
\<close>

theorem find_matching_items_exact:
  "find_matching_items canonical_item candidate_labels =
     filter (\<lambda>label.
               \<exists>alias \<in> set (case map_of (BALANCE_SHEET_RULES @ INCOME_STATEMENT_RULES)
                                      canonical_item of
                                 Some synonyms \<Rightarrow> synonyms
                               | None \<Rightarrow> [canonical_item]).
                 sublist alias label \<or> sublist label alias)
       candidate_labels
   \<and> (distinct candidate_labels \<longrightarrow>
        distinct (find_matching_items canonical_item candidate_labels))"
proof
  show "find_matching_items canonical_item candidate_labels =
     filter (\<lambda>label.
               \<exists>alias \<in> set (case map_of (BALANCE_SHEET_RULES @ INCOME_STATEMENT_RULES)
                                      canonical_item of
                                 Some synonyms \<Rightarrow> synonyms
                               | None \<Rightarrow> [canonical_item]).
                 sublist alias label \<or> sublist label alias)
       candidate_labels"
    by (simp only: find_matching_items_filter find_synonyms_registered py_in_sublist)
  show "distinct candidate_labels \<longrightarrow>
        distinct (find_matching_items canonical_item candidate_labels)"
    by (simp add: find_matching_items_filter)
qed

theorem find_matching_items_exact_witness:
  "map_of (BALANCE_SHEET_RULES @ INCOME_STATEMENT_RULES) zh_total_assets
     = Some [zh_assets_sum, zh_assets_amount, zh_all_assets]
   \<and> find_matching_items zh_total_assets [zh_all_assets, ''other'', zh_total_assets]
     = [zh_all_assets]
   \<and> map_of (BALANCE_SHEET_RULES @ INCOME_STATEMENT_RULES) ''Cash'' = None
   \<and> distinct [''Cash and equivalents'', ''Other'', ''Cash'']
   \<and> find_matching_items ''Cash'' [''Cash and equivalents'', ''Other'', ''Cash'']
     = [''Cash and equivalents'', ''Cash'']
   \<and> distinct (find_matching_items ''Cash'' [''Cash and equivalents'', ''Other'', ''Cash''])"
proof -
  have m1: "map_of (BALANCE_SHEET_RULES @ INCOME_STATEMENT_RULES) zh_total_assets
     = Some [zh_assets_sum, zh_assets_amount, zh_all_assets]"
    by (simp add: BALANCE_SHEET_RULES_def)
  have m2: "map_of (BALANCE_SHEET_RULES @ INCOME_STATEMENT_RULES) ''Cash'' = None"
    by (simp add: BALANCE_SHEET_RULES_def INCOME_STATEMENT_RULES_def zh_defs)
  have d: "distinct [''Cash and equivalents'', ''Other'', ''Cash'']" by simp
  note t1 = find_matching_items_exact
    [of zh_total_assets "[zh_all_assets, ''other'', zh_total_assets]", unfolded m1 option.case]
  note t2 = find_matching_items_exact
    [of "''Cash''" "[''Cash and equivalents'', ''Other'', ''Cash'']", unfolded m2 option.case]
  from t1 have r1: "find_matching_items zh_total_assets [zh_all_assets, ''other'', zh_total_assets]
     = [zh_all_assets]"
    by (simp add: py_in_sublist [symmetric] zh_defs)
  from t2 have r2: "find_matching_items ''Cash'' [''Cash and equivalents'', ''Other'', ''Cash'']
     = [''Cash and equivalents'', ''Cash'']"
    by (simp add: py_in_sublist [symmetric])
  from t2 d have r3: "distinct (find_matching_items ''Cash'' [''Cash and equivalents'', ''Other'', ''Cash''])"
    by blast
  from m1 m2 d r1 r2 r3 show ?thesis by blast
qed

subsection \<open>The table reconciler\<close>

lemma note_step_None:
  "note_step tol nt mn nn mi None acc ni = acc"
  by (simp only: note_step_def option.case)

lemma note_step_no_note:
  "extract_value nt ni = None \<Longrightarrow> note_step tol nt mn nn mi mvo acc ni = acc"
  by (cases mvo) (simp_all only: note_step_def option.case)

lemma note_step_within:
  "extract_value nt ni = Some nv \<Longrightarrow> \<not> tol < \<bar>mv - nv\<bar> \<Longrightarrow>
   note_step tol nt mn nn mi (Some mv) acc ni = acc"
  by (simp only: note_step_def Let_def option.case simp_thms if_False)

lemma note_step_emit:
  "extract_value nt ni = Some nv \<Longrightarrow> tol < \<bar>mv - nv\<bar> \<Longrightarrow>
   note_step tol nt mn nn mi (Some mv) acc ni =
     acc @ [\<lparr>rc_main_table = mn, rc_note_table = nn, rc_main_item = mi, rc_note_item = ni,
             rc_main_value = mv, rc_note_value = nv, rc_difference = \<bar>mv - nv\<bar>,
             rc_difference_rate = (if mv \<noteq> 0 then \<bar>mv - nv\<bar> / mv * 100 else 0),
             rc_severity = assess_severity \<bar>mv - nv\<bar> mv\<rparr>]"
  by (simp only: note_step_def Let_def option.case simp_thms if_True)

lemma note_step_append:
  "note_step tol nt mn nn mi mvo acc ni = acc @ note_step tol nt mn nn mi mvo [] ni"
proof (cases mvo)
  case None
  then show ?thesis by (simp only: note_step_None append_Nil2)
next
  case mv: (Some mv)
  show ?thesis
  proof (cases "extract_value nt ni")
    case None
    then show ?thesis by (simp only: note_step_no_note append_Nil2)
  next
    case (Some nv)
    show ?thesis
    proof (cases "tol < \<bar>mv - nv\<bar>")
      case True
      with Some mv show ?thesis by (simp only: note_step_emit append_Nil)
    next
      case False
      with Some mv show ?thesis by (simp only: note_step_within simp_thms append_Nil2)
    qed
  qed
qed

lemma note_loop_concat:
  "foldl (note_step tol nt mn nn mi mvo) acc nis =
     acc @ concat (map (note_step tol nt mn nn mi mvo []) nis)"
  by (rule foldl_emit) (rule note_step_append)

lemma note_step_mem:
  "r \<in> set (note_step tol nt mn nn mi mvo [] ni) \<longleftrightarrow>
     (\<exists>mv nv. mvo = Some mv \<and> extract_value nt ni = Some nv \<and> tol < \<bar>mv - nv\<bar>
        \<and> r = \<lparr>rc_main_table = mn, rc_note_table = nn, rc_main_item = mi, rc_note_item = ni,
             rc_main_value = mv, rc_note_value = nv, rc_difference = \<bar>mv - nv\<bar>,
             rc_difference_rate = (if mv \<noteq> 0 then \<bar>mv - nv\<bar> / mv * 100 else 0),
             rc_severity = assess_severity \<bar>mv - nv\<bar> mv\<rparr>)"
proof (cases mvo)
  case None
  then show ?thesis by (simp add: note_step_None)
next
  case mv: (Some mv)
  show ?thesis
  proof (cases "extract_value nt ni")
    case None
    then show ?thesis by (simp add: note_step_no_note)
  next
    case (Some nv)
    show ?thesis
    proof (cases "tol < \<bar>mv - nv\<bar>")
      case True
      with Some mv show ?thesis by (simp only: note_step_emit) auto
    next
      case False
      with Some mv show ?thesis by (simp add: note_step_within)
    qed
  qed
qed

lemma main_step_Nil:
  "main_step tol mt nt mn nn nis [] mi =
     (if mi = [] \<or> strip mi = [] then []
      else concat (map (note_step tol nt mn nn mi (extract_value mt mi) [])
                     (find_matching_items mi nis)))"
  by (simp add: main_step_def Let_def note_loop_concat)

lemma main_step_append:
  "main_step tol mt nt mn nn nis acc mi = acc @ main_step tol mt nt mn nn nis [] mi"
  by (simp add: main_step_def Let_def note_loop_concat)

lemma reconcile_tables_concat:
  "reconcile_tables tol mt nt mn nn =
     (if df_empty mt then []
      else concat (map (main_step tol mt nt mn nn
                          (if \<not> df_empty nt then first_column nt else []) [])
                     (first_column mt)))"
proof -
  have "foldl (main_step tol mt nt mn nn nis) [] mis
        = [] @ concat (map (main_step tol mt nt mn nn nis []) mis)" for nis mis
    by (rule foldl_emit) (rule main_step_append)
  then show ?thesis by (simp add: reconcile_tables_def Let_def)
qed

lemma reconcile_tables_mem:
  "r \<in> set (reconcile_tables tol mt nt mn nn) \<longleftrightarrow>
     \<not> df_empty mt \<and>
     (\<exists>mi \<in> set (first_column mt). mi \<noteq> [] \<and> strip mi \<noteq> [] \<and>
        (\<exists>ni \<in> set (find_matching_items mi (if \<not> df_empty nt then first_column nt else [])).
           \<exists>mv nv. extract_value mt mi = Some mv \<and> extract_value nt ni = Some nv
             \<and> tol < \<bar>mv - nv\<bar>
             \<and> r = \<lparr>rc_main_table = mn, rc_note_table = nn, rc_main_item = mi, rc_note_item = ni,
                 rc_main_value = mv, rc_note_value = nv, rc_difference = \<bar>mv - nv\<bar>,
                 rc_difference_rate = (if mv \<noteq> 0 then \<bar>mv - nv\<bar> / mv * 100 else 0),
                 rc_severity = assess_severity \<bar>mv - nv\<bar> mv\<rparr>))"
proof (cases "df_empty mt")
  case True
  then show ?thesis by (simp add: reconcile_tables_concat)
next
  case False
  have "r \<in> set (main_step tol mt nt mn nn nis [] mi) \<longleftrightarrow>
        mi \<noteq> [] \<and> strip mi \<noteq> [] \<and>
        (\<exists>ni \<in> set (find_matching_items mi nis).
           r \<in> set (note_step tol nt mn nn mi (extract_value mt mi) [] ni))" for nis mi
    by (simp add: main_step_Nil)
  with False show ?thesis
    by (simp only: reconcile_tables_concat if_False set_concat set_map UN_iff bex_simps image_iff note_step_mem)
       blast
qed

lemma mapping_step_cases:
  "mapping_step tol mt nt acc pair =
     (case extract_value mt (fst pair) of
        None \<Rightarrow> acc
      | Some mv \<Rightarrow>
          (case extract_value nt (snd pair) of
             None \<Rightarrow> acc
           | Some nv \<Rightarrow>
               if tol < \<bar>mv - nv\<bar>
               then acc @ [\<lparr>md_main_item = fst pair, md_note_item = snd pair,
                          md_main_value = mv, md_note_value = nv,
                          md_difference = \<bar>mv - nv\<bar>,
                          md_difference_rate = (if mv \<noteq> 0 then \<bar>mv - nv\<bar> / mv * 100 else 0),
                          md_severity = assess_severity \<bar>mv - nv\<bar> mv\<rparr>]
               else acc))"
  by (simp only: mapping_step_def Let_def)

lemma mapping_step_append:
  "mapping_step tol mt nt acc pair = acc @ mapping_step tol mt nt [] pair"
proof (cases "extract_value mt (fst pair)")
  case None
  then show ?thesis by (simp only: mapping_step_cases option.case append_Nil2)
next
  case mv: (Some mv)
  show ?thesis
  proof (cases "extract_value nt (snd pair)")
    case None
    with mv show ?thesis by (simp only: mapping_step_cases option.case append_Nil2)
  next
    case (Some nv)
    with mv show ?thesis
      by (cases "tol < \<bar>mv - nv\<bar>")
         (simp_all only: mapping_step_cases option.case simp_thms if_True if_False append_Nil append_Nil2)
  qed
qed

lemma mapping_step_mem:
  "r \<in> set (mapping_step tol mt nt [] pair) \<longleftrightarrow>
     (\<exists>mv nv. extract_value mt (fst pair) = Some mv \<and> extract_value nt (snd pair) = Some nv
        \<and> tol < \<bar>mv - nv\<bar>
        \<and> r = \<lparr>md_main_item = fst pair, md_note_item = snd pair,
                 md_main_value = mv, md_note_value = nv,
                 md_difference = \<bar>mv - nv\<bar>,
                 md_difference_rate = (if mv \<noteq> 0 then \<bar>mv - nv\<bar> / mv * 100 else 0),
                 md_severity = assess_severity \<bar>mv - nv\<bar> mv\<rparr>)"
proof (cases "extract_value mt (fst pair)")
  case None
  then show ?thesis by (simp add: mapping_step_cases)
next
  case mv: (Some mv)
  show ?thesis
  proof (cases "extract_value nt (snd pair)")
    case None
    with mv show ?thesis by (simp add: mapping_step_cases)
  next
    case (Some nv)
    with mv show ?thesis
      by (cases "tol < \<bar>mv - nv\<bar>") (simp_all only: mapping_step_cases option.case simp_thms if_True if_False append_Nil, auto)
  qed
qed

lemma validate_reconciliation_mem:
  "r \<in> set (validate_reconciliation tol mt nt mapping) \<longleftrightarrow>
     (\<exists>pair \<in> set mapping.
        \<exists>mv nv. extract_value mt (fst pair) = Some mv \<and> extract_value nt (snd pair) = Some nv
        \<and> tol < \<bar>mv - nv\<bar>
        \<and> r = \<lparr>md_main_item = fst pair, md_note_item = snd pair,
                 md_main_value = mv, md_note_value = nv,
                 md_difference = \<bar>mv - nv\<bar>,
                 md_difference_rate = (if mv \<noteq> 0 then \<bar>mv - nv\<bar> / mv * 100 else 0),
                 md_severity = assess_severity \<bar>mv - nv\<bar> mv\<rparr>)"
proof -
  have "foldl (mapping_step tol mt nt) [] mapping
        = [] @ concat (map (mapping_step tol mt nt []) mapping)"
    by (rule foldl_emit) (rule mapping_step_append)
  then have "validate_reconciliation tol mt nt mapping
        = concat (map (mapping_step tol mt nt []) mapping)"
    by (simp add: validate_reconciliation_def)
  then show ?thesis
    by (simp only: set_concat set_map UN_iff bex_simps image_iff mapping_step_mem)
qed

text \<open>
  Claim C2 as stated fails on the rate: for a main value 1000 and a note value 900 the record
  carries the rate 10, a percentage, where difference / main value is 0.1.
\<close>

theorem reconcile_tables_rate_percent:
  "reconcile_tables 2
     \<lparr>columns = [''item'', ''amount''], rows = [[''Cash'', ''1,000'']]\<rparr>
     \<lparr>columns = [''item'', ''amount''], rows = [[''Cash'', ''900'']]\<rparr>
     ''main'' ''note''
   = [\<lparr>rc_main_table = ''main'', rc_note_table = ''note'',
       rc_main_item = ''Cash'', rc_note_item = ''Cash'',
       rc_main_value = 1000, rc_note_value = 900,
       rc_difference = 100, rc_difference_rate = 10, rc_severity = High\<rparr>]
   \<and> (100 :: real) / 1000 \<noteq> 10"
proof -
  have p: "parse_number ''1,000'' = Some 1000" "parse_number ''900'' = Some 900"
    by (simp_all add: parse_number_def pn_defs)
  have s: "find_synonyms ''Cash'' = [''Cash'']"
    by (simp add: find_synonyms_def dict_get_def BALANCE_SHEET_RULES_def
          INCOME_STATEMENT_RULES_def zh_defs)
  have f: "find_matching_items ''Cash'' [''Cash''] = [''Cash'']"
    by (simp add: find_matching_items_def s)
  have st: "strip ''Cash'' = ''Cash''"
    by (simp add: strip_def is_space_def)
  show ?thesis
    by (simp add: reconcile_tables_def main_step_def note_step_def first_column_def df_empty_def
          first_col_def extract_value_def p f st assess_severity_def)
qed

text \<open>
  Claim C2, amended. The table reconciler \<^verbatim>\<open>_reconcile_tables\<close> reports a record for
  a non-blank main label and a matching note label exactly when both extracted values are
  non-null and their absolute difference exceeds the tolerance; the record's rate is the
  difference divided by the main value, times 100, and 0 when the main value is 0; its
  severity is that of the classifier. \<^verbatim>\<open>validate_reconciliation\<close> does the same for
  the pairs of a given mapping.
\<close>

theorem reconcile_tables_exact:
  "(r \<in> set (reconcile_tables tolerance main_table note_table main_name note_name) \<longleftrightarrow>
     \<not> df_empty main_table \<and>
     (\<exists>main_item \<in> set (first_column main_table). main_item \<noteq> [] \<and> strip main_item \<noteq> [] \<and>
        (\<exists>note_item \<in> set (find_matching_items main_item
                               (if \<not> df_empty note_table then first_column note_table else [])).
           \<exists>mv nv. extract_value main_table main_item = Some mv
             \<and> extract_value note_table note_item = Some nv
             \<and> tolerance < \<bar>mv - nv\<bar>
             \<and> r = \<lparr>rc_main_table = main_name, rc_note_table = note_name,
                     rc_main_item = main_item, rc_note_item = note_item,
                     rc_main_value = mv, rc_note_value = nv, rc_difference = \<bar>mv - nv\<bar>,
                     rc_difference_rate = (if mv \<noteq> 0 then \<bar>mv - nv\<bar> / mv * 100 else 0),
                     rc_severity = assess_severity \<bar>mv - nv\<bar> mv\<rparr>)))
   \<and> (d \<in> set (validate_reconciliation tolerance main_table note_table mapping) \<longleftrightarrow>
       (\<exists>pair \<in> set mapping.
          \<exists>mv nv. extract_value main_table (fst pair) = Some mv
            \<and> extract_value note_table (snd pair) = Some nv
            \<and> tolerance < \<bar>mv - nv\<bar>
            \<and> d = \<lparr>md_main_item = fst pair, md_note_item = snd pair,
                    md_main_value = mv, md_note_value = nv,
                    md_difference = \<bar>mv - nv\<bar>,
                    md_difference_rate = (if mv \<noteq> 0 then \<bar>mv - nv\<bar> / mv * 100 else 0),
                    md_severity = assess_severity \<bar>mv - nv\<bar> mv\<rparr>))"
  using reconcile_tables_mem validate_reconciliation_mem by (rule conjI)

theorem reconcile_tables_exact_witness:
  "\<not> df_empty \<lparr>columns = [''item'', ''amount''], rows = [[''Cash'', ''1,000'']]\<rparr>
   \<and> ''Cash'' \<in> set (find_matching_items ''Cash''
         (first_column \<lparr>columns = [''item'', ''amount''], rows = [[''Cash'', ''900'']]\<rparr>))
   \<and> (2 :: real) < \<bar>1000 - 900\<bar>
   \<and> \<lparr>rc_main_table = ''main'', rc_note_table = ''note'',
       rc_main_item = ''Cash'', rc_note_item = ''Cash'',
       rc_main_value = 1000, rc_note_value = 900,
       rc_difference = 100, rc_difference_rate = 10, rc_severity = High\<rparr>
     \<in> set (reconcile_tables 2
         \<lparr>columns = [''item'', ''amount''], rows = [[''Cash'', ''1,000'']]\<rparr>
         \<lparr>columns = [''item'', ''amount''], rows = [[''Cash'', ''900'']]\<rparr>
         ''main'' ''note'')
   \<and> \<lparr>md_main_item = ''Cash'', md_note_item = ''Cash'',
       md_main_value = 1000, md_note_value = 900,
       md_difference = 100, md_difference_rate = 10, md_severity = High\<rparr>
     \<in> set (validate_reconciliation 2
         \<lparr>columns = [''item'', ''amount''], rows = [[''Cash'', ''1,000'']]\<rparr>
         \<lparr>columns = [''item'', ''amount''], rows = [[''Cash'', ''900'']]\<rparr>
         [(''Cash'', ''Cash'')])"
proof -
  let ?mt = "\<lparr>columns = [''item'', ''amount''], rows = [[''Cash'', ''1,000'']]\<rparr>"
  let ?nt = "\<lparr>columns = [''item'', ''amount''], rows = [[''Cash'', ''900'']]\<rparr>"
  let ?r = "\<lparr>rc_main_table = ''main'', rc_note_table = ''note'',
       rc_main_item = ''Cash'', rc_note_item = ''Cash'',
       rc_main_value = 1000, rc_note_value = 900,
       rc_difference = 100, rc_difference_rate = 10, rc_severity = High\<rparr>"
  let ?d = "\<lparr>md_main_item = ''Cash'', md_note_item = ''Cash'',
       md_main_value = 1000, md_note_value = 900,
       md_difference = 100, md_difference_rate = 10, md_severity = High\<rparr>"
  have p: "parse_number ''1,000'' = Some 1000" "parse_number ''900'' = Some 900"
    by (simp_all add: parse_number_def pn_defs)
  have e: "\<not> df_empty ?mt" "\<not> df_empty ?nt" by (simp_all add: df_empty_def)
  have c: "first_column ?mt = [''Cash'']" "first_column ?nt = [''Cash'']"
    by (simp_all add: first_column_def first_col_def)
  have s: "find_synonyms ''Cash'' = [''Cash'']"
    by (simp add: find_synonyms_def dict_get_def BALANCE_SHEET_RULES_def
          INCOME_STATEMENT_RULES_def zh_defs)
  have f: "find_matching_items ''Cash'' [''Cash''] = [''Cash'']"
    by (simp add: find_matching_items_def s)
  have st: "strip ''Cash'' = ''Cash''"
    by (simp add: strip_def is_space_def)
  have v: "extract_value ?mt ''Cash'' = Some 1000" "extract_value ?nt ''Cash'' = Some 900"
    by (simp_all add: extract_value_def df_empty_def first_col_def p)
  have a: "assess_severity 100 1000 = High" by (simp add: assess_severity_def)
  note t = reconcile_tables_exact [of ?r 2 ?mt ?nt "''main''" "''note''" ?d "[(''Cash'', ''Cash'')]"]
  from t have "?r \<in> set (reconcile_tables 2 ?mt ?nt ''main'' ''note'')"
    by (simp add: e c f st v a)
  moreover from t have "?d \<in> set (validate_reconciliation 2 ?mt ?nt [(''Cash'', ''Cash'')])"
    by (simp add: v a)
  ultimately show ?thesis using e c f by simp
qed

subsection \<open>The rule evaluator\<close>

lemma check_rule_None_iff:
  "check_rule tolerance rule financial_data category = None \<longleftrightarrow>
     (\<exists>item \<in> set (rule_items rule). financial_data item = None)"
  by (simp add: check_rule_def Let_def filter_empty_conv)

lemma check_rule_Some:
  assumes "\<forall>item \<in> set (rule_items rule). financial_data item \<noteq> None"
  shows "\<exists>result. check_rule tolerance rule financial_data category = Some result
           \<and> rr_difference result = rule_check rule financial_data
           \<and> rr_is_pass result = (rule_check rule financial_data \<le> tolerance)
           \<and> rr_items result = rule_items rule"
proof -
  from assms have "filter (\<lambda>item. financial_data item = None) (rule_items rule) = []"
    by (simp add: filter_empty_conv)
  then show ?thesis by (simp add: check_rule_def Let_def)
qed

text \<open>
  Claim C6. Rule evaluation returns null exactly when some required item is absent from the
  values; when all are present it returns a result whose difference is the rule's check
  applied to the values and whose \<open>is_pass\<close> flag says that the difference is at most the
  tolerance.
\<close>

theorem check_rule_applicable:
  "(check_rule tolerance rule financial_data category = None \<longleftrightarrow>
      (\<exists>item \<in> set (rule_items rule). financial_data item = None))
   \<and> ((\<forall>item \<in> set (rule_items rule). financial_data item \<noteq> None) \<longrightarrow>
        (\<exists>result. check_rule tolerance rule financial_data category = Some result
           \<and> rr_difference result = rule_check rule financial_data
           \<and> rr_is_pass result = (rule_check rule financial_data \<le> tolerance)))"
  using check_rule_None_iff check_rule_Some by blast

theorem check_rule_applicable_witness:
  "list_all (\<lambda>item. [zh_liabilities_and_net_assets \<mapsto> (1001::real),
                       zh_total_assets \<mapsto> 1000] item \<noteq> None)
            (rule_items rule_total_equality)
   \<and> (\<exists>result. check_rule 0.01 rule_total_equality
          [zh_liabilities_and_net_assets \<mapsto> 1001, zh_total_assets \<mapsto> 1000] zh_balance_sheet
          = Some result
        \<and> rr_difference result = 1 \<and> \<not> rr_is_pass result)
   \<and> [zh_total_assets \<mapsto> (1000::real)] zh_liabilities_and_net_assets = None
   \<and> check_rule 0.01 rule_total_equality [zh_total_assets \<mapsto> 1000] zh_balance_sheet = None"
proof -
  let ?d = "[zh_liabilities_and_net_assets \<mapsto> 1001, zh_total_assets \<mapsto> (1000::real)]"
  have n: "zh_liabilities_and_net_assets \<noteq> zh_total_assets"
    by (simp add: zh_defs)
  have h: "\<forall>item \<in> set (rule_items rule_total_equality). ?d item \<noteq> None"
    using n by (simp add: rule_total_equality_def)
  have c: "rule_check rule_total_equality ?d = 1"
    using n by (simp add: rule_total_equality_def get0_def)
  have m: "[zh_total_assets \<mapsto> (1000::real)] zh_liabilities_and_net_assets = None"
    using n by simp
  have i: "zh_liabilities_and_net_assets \<in> set (rule_items rule_total_equality)"
    by (simp add: rule_total_equality_def)
  from check_rule_applicable [of "0.01" rule_total_equality ?d zh_balance_sheet] h c
  have "\<exists>result. check_rule 0.01 rule_total_equality ?d zh_balance_sheet = Some result
        \<and> rr_difference result = 1 \<and> \<not> rr_is_pass result"
    by auto
  moreover
  from check_rule_applicable [of "0.01" rule_total_equality "[zh_total_assets \<mapsto> 1000]" zh_balance_sheet]
    m i
  have "check_rule 0.01 rule_total_equality [zh_total_assets \<mapsto> 1000] zh_balance_sheet = None"
    by blast
  ultimately show ?thesis using h m by (simp add: list_all_iff)
qed

subsection \<open>The similarity searches\<close>











lemma search_cases_no_floor:
  "search_cases sort_values results None None top_n = df_head top_n (sort_values results)"
  by (simp add: search_cases_def)












subsection \<open>The duplicate detector\<close>















end
